theory Spec2Isabelle
  imports Main
begin

section \<open>User management service: authentication and session tokens\<close>

text \<open>
  A shallow embedding of the user service (\<^verbatim>\<open>services/userService.js\<close>), the user
  model with its pre-save hook (\<^verbatim>\<open>models/userModel.js\<close>), the authentication and
  validation middlewares, the profile controller and the error handler.

  The service talks to four libraries whose code is not part of the repository:
  jsonwebtoken, bcryptjs, Joi and Mongoose.  The first two are taken as parameters
  (record \<open>libs\<close>); what the model takes from Mongoose and Joi is written next to each
  definition.  Time (\<open>now\<close>) and randomness (\<open>rnd\<close>) are inputs.
\<close>

subsection \<open>JSON values and plain objects\<close>

datatype jval =
    JNull
  | JBool bool
  | JNum int
  | JStr string
  | JArr "jval list"
  | JObj "(string \<times> jval) list"

type_synonym jobject = "(string \<times> jval) list"

definition has_key :: "string \<Rightarrow> jobject \<Rightarrow> bool" where
  "has_key k obj = (map_of obj k \<noteq> None)"

text \<open>JavaScript's \<^verbatim>\<open>delete obj.k\<close>.\<close>

definition delete_key :: "string \<Rightarrow> jobject \<Rightarrow> jobject" where
  "delete_key k obj = filter (\<lambda>kv. fst kv \<noteq> k) obj"

subsection \<open>Errors and the error handler\<close>

text \<open>
  \<open>AppError m c\<close> is \<^verbatim>\<open>new AppError(m, c)\<close>; \<open>AppErrorDetails\<close> is the same object
  after the validation middleware has attached \<^verbatim>\<open>details\<close>.  The other constructors
  are the errors of the MongoDB driver and of Mongoose that the handler tells apart:
  the duplicate-key error (\<^verbatim>\<open>code\<close> 11000) with the first key of its
  \<^verbatim>\<open>keyPattern\<close>, a \<^verbatim>\<open>ValidationError\<close> with its messages, a \<^verbatim>\<open>CastError\<close>, and any
  other error with its message.
\<close>

datatype error =
    AppError string nat
  | AppErrorDetails string nat "(string \<times> string) list"
  | DuplicateKeyError string
  | ValidationError "string list"
  | CastError
  | OtherError string

record response =
  status :: nat
  body :: jobject

fun join_comma :: "string list \<Rightarrow> string" where
  "join_comma [] = []"
| "join_comma [m] = m"
| "join_comma (m # ms) = m @ '', '' @ join_comma ms"

text \<open>
  \<^verbatim>\<open>errorHandler\<close>: the three \<^verbatim>\<open>if\<close>s of the source (name \<^verbatim>\<open>CastError\<close>, code
  11000, name \<^verbatim>\<open>ValidationError\<close>) run in sequence, each replacing \<^verbatim>\<open>error\<close>; an
  error is of one kind only, so they are the branches below.  The status is
  \<^verbatim>\<open>error.statusCode || 500\<close> and the message
  \<^verbatim>\<open>error.message || 'Internal Server Error'\<close>.  The \<^verbatim>\<open>stack\<close> key that the handler adds to
  the body when \<^verbatim>\<open>config.env\<close> is \<^verbatim>\<open>development\<close> is left out of the response
  body; the status and the other keys do not depend on it.
\<close>

definition error_reply :: "nat \<Rightarrow> string \<Rightarrow> (string \<times> string) list option \<Rightarrow> response" where
  "error_reply code msg det =
     \<lparr>status = (if code = 0 then 500 else code),
      body = [(''success'', JBool False),
              (''error'', JStr (if msg = [] then ''Internal Server Error'' else msg))]
             @ (case det of None \<Rightarrow> []
                | Some ds \<Rightarrow> [(''details'', JObj (map (\<lambda>(p, m). (p, JStr m)) ds))])\<rparr>"

fun errorHandler :: "error \<Rightarrow> response" where
  "errorHandler CastError = error_reply 404 ''Resource not found'' None"
| "errorHandler (DuplicateKeyError field) = error_reply 409 (field @ '' already exists'') None"
| "errorHandler (ValidationError msgs) = error_reply 400 (join_comma msgs) None"
| "errorHandler (AppError msg code) = error_reply code msg None"
| "errorHandler (AppErrorDetails msg code ds) = error_reply code msg (Some ds)"
| "errorHandler (OtherError msg) = error_reply 0 msg None"

subsection \<open>Libraries and configuration\<close>

record payload =
  p_id :: nat
  p_email :: string
  p_role :: string

text \<open>What \<^verbatim>\<open>jwt.verify\<close> returns: the payload with the issued-at and expiry claims.\<close>

record claims =
  c_id :: nat
  c_email :: string
  c_role :: string
  c_iat :: nat
  c_exp :: nat

datatype jwt_error = TokenExpiredError | JsonWebTokenError | NotBeforeError

text \<open>
  \<open>jwt_sign payload secret expiresIn now\<close> and \<open>jwt_verify token secret now\<close> stand for
  jsonwebtoken's \<^verbatim>\<open>sign\<close> and \<^verbatim>\<open>verify\<close> (which throws one of the three errors);
  \<open>bcrypt_genSalt rounds rnd\<close>, \<open>bcrypt_hash plaintext salt\<close> and
  \<open>bcrypt_compare candidate hash\<close> stand for bcryptjs.
\<close>

record libs =
  jwt_sign :: "payload \<Rightarrow> string \<Rightarrow> string \<Rightarrow> nat \<Rightarrow> string"
  jwt_verify :: "string \<Rightarrow> string \<Rightarrow> nat \<Rightarrow> jwt_error + claims"
  bcrypt_genSalt :: "nat \<Rightarrow> nat \<Rightarrow> string"
  bcrypt_hash :: "string \<Rightarrow> string \<Rightarrow> string"
  bcrypt_compare :: "string \<Rightarrow> string \<Rightarrow> bool"

text \<open>The fields of \<^verbatim>\<open>config.jwt\<close> and \<^verbatim>\<open>config.bcrypt\<close>.\<close>

record config =
  jwt_secret :: string
  jwt_expiresIn :: string
  jwt_refreshSecret :: string
  jwt_refreshExpiresIn :: string
  bcrypt_saltRounds :: nat

subsection \<open>The user model\<close>

text \<open>
  The paths of \<^verbatim>\<open>userSchema\<close> that the modelled operations read or write.  A refresh
  token entry is the token with its \<^verbatim>\<open>createdAt\<close> default.  \<open>password\<close> holds what
  is stored: the hash written by the pre-save hook.
\<close>

record user =
  uid :: nat
  email :: string
  password :: string
  firstName :: string
  lastName :: string
  username :: "string option"
  role :: string
  avatar :: "string option"
  isActive :: bool
  lastLogin :: "nat option"
  refreshTokens :: "(string \<times> nat) list"
  preferences :: jval
  learningProfile :: jval

text \<open>
  The schema setters \<^verbatim>\<open>lowercase: true\<close> and \<^verbatim>\<open>trim: true\<close>, on ASCII strings:
  \<^verbatim>\<open>toLowerCase\<close> lowers the letters A to Z and \<^verbatim>\<open>trim\<close> strips space, TAB, LF, VT,
  FF and CR (both also act on characters beyond ASCII, which are left as they are
  here).
\<close>

definition lower_char :: "char \<Rightarrow> char" where
  "lower_char c =
     (let n = (of_char c :: nat) in if 65 \<le> n \<and> n \<le> 90 then char_of (n + 32) else c)"

definition is_space :: "char \<Rightarrow> bool" where
  "is_space c = (c \<in> set [CHR '' '', CHR 0x09, CHR 0x0A, CHR 0x0B, CHR 0x0C, CHR 0x0D])"

definition trim :: "string \<Rightarrow> string" where
  "trim s = rev (dropWhile is_space (rev (dropWhile is_space s)))"

definition lowercase_trim :: "string \<Rightarrow> string" where
  "lowercase_trim s = map lower_char (trim s)"

text \<open>
  A Mongoose document in memory: the data, whether it is new, whether the path
  \<^verbatim>\<open>password\<close> is marked modified (\<^verbatim>\<open>isModified('password')\<close>) and whether the
  query selected it (\<^verbatim>\<open>select: false\<close> hides it unless \<^verbatim>\<open>.select('+password')\<close>).
\<close>

record document =
  attrs :: user
  isNew :: bool
  passwordModified :: bool
  passwordSelected :: bool

text \<open>
  The persisted state: the collection in insertion order.  \<open>hashCalls\<close> is a ghost
  counter of the calls of \<^verbatim>\<open>bcrypt.hash\<close>.
\<close>

record world =
  users :: "user list"
  hashCalls :: nat

text \<open>
  Queries.  Mongoose casts a query filter with the schema, so the setters run on
  the email and the username of a filter too.
\<close>

definition findOne_email :: "string \<Rightarrow> user list \<Rightarrow> user option" where
  "findOne_email e us = find (\<lambda>u. email u = lowercase_trim e) us"

definition findOne_username :: "string \<Rightarrow> user list \<Rightarrow> user option" where
  "findOne_username n us = find (\<lambda>u. username u = Some (lowercase_trim n)) us"

definition findById :: "nat \<Rightarrow> user list \<Rightarrow> user option" where
  "findById i us = find (\<lambda>u. uid u = i) us"

definition hydrate :: "bool \<Rightarrow> user \<Rightarrow> document" where
  "hydrate sel u = \<lparr>attrs = u, isNew = False, passwordModified = False, passwordSelected = sel\<rparr>"

text \<open>
  \<^verbatim>\<open>doc.toObject()\<close>: a plain object of the document's paths.  The schema's
  \<^verbatim>\<open>toJSON\<close> transform (which deletes the password and the refresh tokens) is an
  option of \<^verbatim>\<open>toJSON\<close> only; \<^verbatim>\<open>toObject\<close> does not run it, and a plain object
  is serialised by \<^verbatim>\<open>res.json\<close> as it is.
\<close>

definition opt_str :: "string option \<Rightarrow> jval" where
  "opt_str v = (case v of None \<Rightarrow> JNull | Some s \<Rightarrow> JStr s)"

definition toObject :: "document \<Rightarrow> jobject" where
  "toObject d =
     (let u = attrs d in
      [(''_id'', JNum (int (uid u))), (''email'', JStr (email u))]
      @ (if passwordSelected d then [(''password'', JStr (password u))] else [])
      @ [(''firstName'', JStr (firstName u)), (''lastName'', JStr (lastName u))]
      @ (case username u of None \<Rightarrow> [] | Some n \<Rightarrow> [(''username'', JStr n)])
      @ [(''role'', JStr (role u)), (''avatar'', opt_str (avatar u)),
         (''isActive'', JBool (isActive u)),
         (''lastLogin'', (case lastLogin u of None \<Rightarrow> JNull | Some t \<Rightarrow> JNum (int t))),
         (''refreshTokens'',
            JArr (map (\<lambda>(t, c). JObj [(''token'', JStr t), (''createdAt'', JNum (int c))])
                   (refreshTokens u))),
         (''preferences'', preferences u), (''learningProfile'', learningProfile u)])"

text \<open>
  The pre-save hook: \<^verbatim>\<open>if (!this.isModified('password')) return next()\<close>, else the
  password is replaced by its hash under a fresh salt.  The second component counts
  the hash computations.
\<close>

definition pre_save :: "libs \<Rightarrow> config \<Rightarrow> nat \<Rightarrow> document \<Rightarrow> document \<times> nat" where
  "pre_save L C rnd d =
     (if \<not> passwordModified d then (d, 0)
      else (d\<lparr>attrs := (attrs d)\<lparr>password :=
                 bcrypt_hash L (password (attrs d)) (bcrypt_genSalt L (bcrypt_saltRounds C) rnd)\<rparr>\<rparr>,
            1))"

text \<open>
  The unique indexes of the collection, as the store enforces them at write time:
  \<^verbatim>\<open>email\<close>, then the sparse index \<^verbatim>\<open>username\<close> (absent usernames never collide),
  in the order of their declaration.  The result is the first key of the
  duplicate-key error's \<^verbatim>\<open>keyPattern\<close>.
\<close>

definition unique_violation :: "user \<Rightarrow> user list \<Rightarrow> string option" where
  "unique_violation u us =
     (if \<exists>v \<in> set us. email v = email u then Some ''email''
      else if username u \<noteq> None \<and> (\<exists>v \<in> set us. username v = username u) then Some ''username''
      else None)"

text \<open>
  \<^verbatim>\<open>doc.save()\<close>: the hook runs, then a new document is inserted (the store may
  answer with the duplicate-key error) and an existing one is written
  back under its \<^verbatim>\<open>_id\<close>.  After a successful save no path is marked modified.
  Mongoose's schema validators (\<^verbatim>\<open>required\<close>, \<^verbatim>\<open>minlength\<close>, \<^verbatim>\<open>enum\<close>) are not part
  of the model of \<open>save\<close>: its callers pass data of the validated shape.
\<close>

definition save :: "libs \<Rightarrow> config \<Rightarrow> nat \<Rightarrow> document \<Rightarrow> world \<Rightarrow> (error + document) \<times> world" where
  "save L C rnd d w =
     (let (d1, n) = pre_save L C rnd d;
          w1 = w\<lparr>hashCalls := hashCalls w + n\<rparr>;
          d2 = d1\<lparr>isNew := False, passwordModified := False\<rparr>
      in if isNew d1 then
           (case unique_violation (attrs d1) (users w1) of
              Some f \<Rightarrow> (Inl (DuplicateKeyError f), w1)
            | None \<Rightarrow> (Inr d2, w1\<lparr>users := users w1 @ [attrs d1]\<rparr>))
         else
           (Inr d2, w1\<lparr>users := map (\<lambda>u. if uid u = uid (attrs d1) then attrs d1 else u)
                                       (users w1)\<rparr>))"

text \<open>\<^verbatim>\<open>userSchema.methods.comparePassword\<close>.\<close>

definition comparePassword :: "libs \<Rightarrow> document \<Rightarrow> string \<Rightarrow> bool" where
  "comparePassword L d candidatePassword =
     bcrypt_compare L candidatePassword (password (attrs d))"

text \<open>
  The assignment \<^verbatim>\<open>user.password = newPassword\<close>.  Mongoose marks a path modified
  only when the assigned value differs from the current one; assigning the value the
  path already holds leaves the document unmodified.
\<close>

definition set_password :: "document \<Rightarrow> string \<Rightarrow> document" where
  "set_password d v =
     (if v = password (attrs d) then d
      else d\<lparr>attrs := (attrs d)\<lparr>password := v\<rparr>, passwordModified := True\<rparr>)"

subsection \<open>The user service\<close>

record tokens =
  accessToken :: string
  refreshToken :: string

text \<open>
  \<^verbatim>\<open>generateTokens\<close>: both tokens carry the same payload and are signed with the two
  secrets of the configuration; the refresh token is pushed on the document and the
  document is saved (awaited) before the tokens are returned.  The source mutates
  the document in place; the model returns it.
\<close>

definition generateTokens ::
  "libs \<Rightarrow> config \<Rightarrow> nat \<Rightarrow> nat \<Rightarrow> document \<Rightarrow> world \<Rightarrow> (error + tokens \<times> document) \<times> world" where
  "generateTokens L C now rnd d w =
     (let u = attrs d;
          pl = \<lparr>p_id = uid u, p_email = email u, p_role = role u\<rparr>;
          at = jwt_sign L pl (jwt_secret C) (jwt_expiresIn C) now;
          rt = jwt_sign L pl (jwt_refreshSecret C) (jwt_refreshExpiresIn C) now;
          d' = d\<lparr>attrs := u\<lparr>refreshTokens := refreshTokens u @ [(rt, now)]\<rparr>\<rparr>
      in case save L C rnd d' w of
           (Inl e, w') \<Rightarrow> (Inl e, w')
         | (Inr d'', w') \<Rightarrow> (Inr (\<lparr>accessToken = at, refreshToken = rt\<rparr>, d''), w'))"

text \<open>\<^verbatim>\<open>loginUser(email, password)\<close>.\<close>

definition loginUser ::
  "libs \<Rightarrow> config \<Rightarrow> nat \<Rightarrow> nat \<Rightarrow> string \<Rightarrow> string \<Rightarrow> world \<Rightarrow> (error + jobject \<times> tokens) \<times> world" where
  "loginUser L C now rnd e pw w =
     (case findOne_email e (users w) of
        None \<Rightarrow> (Inl (AppError ''Invalid email or password'' 401), w)
      | Some u \<Rightarrow>
          let d = hydrate True u in
          if \<not> comparePassword L d pw then (Inl (AppError ''Invalid email or password'' 401), w)
          else if \<not> isActive (attrs d) then (Inl (AppError ''Account is deactivated'' 403), w)
          else
            (case save L C rnd (d\<lparr>attrs := (attrs d)\<lparr>lastLogin := Some now\<rparr>\<rparr>) w of
               (Inl err, w1) \<Rightarrow> (Inl err, w1)
             | (Inr d1, w1) \<Rightarrow>
                 (case generateTokens L C now rnd d1 w1 of
                    (Inl err, w2) \<Rightarrow> (Inl err, w2)
                  | (Inr (toks, d2), w2) \<Rightarrow> (Inr (toObject d2, toks), w2))))"

text \<open>
  The data \<^verbatim>\<open>createUser\<close> receives: the register payload in its validated shape.
\<close>

record candidate =
  cd_email :: string
  cd_password :: string
  cd_firstName :: string
  cd_lastName :: string
  cd_username :: "string option"
  cd_role :: "string option"

definition default_preferences :: jval where
  "default_preferences =
     JObj [(''language'', JStr ''es''), (''timezone'', JStr ''UTC''),
           (''notifications'', JObj [(''email'', JBool True), (''push'', JBool True)])]"

definition default_learningProfile :: jval where
  "default_learningProfile =
     JObj [(''level'', JStr ''beginner''), (''skills'', JArr []), (''interests'', JArr [])]"

text \<open>
  \<^verbatim>\<open>new User(userData)\<close>: the setters and the defaults of the schema apply, the
  document is new and every path given is marked modified.
\<close>

definition new_User :: "candidate \<Rightarrow> nat \<Rightarrow> document" where
  "new_User cd oid =
     \<lparr>attrs = \<lparr>uid = oid,
                email = lowercase_trim (cd_email cd),
                password = cd_password cd,
                firstName = trim (cd_firstName cd),
                lastName = trim (cd_lastName cd),
                username = map_option lowercase_trim (cd_username cd),
                role = (case cd_role cd of None \<Rightarrow> ''student'' | Some r \<Rightarrow> r),
                avatar = None,
                isActive = True,
                lastLogin = None,
                refreshTokens = [],
                preferences = default_preferences,
                learningProfile = default_learningProfile\<rparr>,
      isNew = True, passwordModified = True, passwordSelected = True\<rparr>"

text \<open>The \<^verbatim>\<open>_id\<close> of a new document: an identifier no stored document has.\<close>

definition fresh_id :: "user list \<Rightarrow> nat" where
  "fresh_id us = Suc (foldr max (map uid us) 0)"

text \<open>
  The username check of \<^verbatim>\<open>createUser\<close>: \<^verbatim>\<open>if (userData.username)\<close> guards the
  query, and an empty string is falsy.
\<close>

definition precheck_username :: "candidate \<Rightarrow> user list \<Rightarrow> user option" where
  "precheck_username userData us =
     (case cd_username userData of
        None \<Rightarrow> None
      | Some n \<Rightarrow> if n = [] then None else findOne_username n us)"

text \<open>
  \<^verbatim>\<open>createUser(userData)\<close>.  The two uniqueness checks and the save are separate
  awaited calls, so other requests may write to the collection between the checks
  and the insert: \<open>intf\<close> is what they do to it (the identity when the call runs
  alone).  An error of \<open>save\<close> is rethrown as it is.
\<close>

definition createUser ::
  "libs \<Rightarrow> config \<Rightarrow> (user list \<Rightarrow> user list) \<Rightarrow> nat \<Rightarrow> nat \<Rightarrow> candidate \<Rightarrow> world
     \<Rightarrow> (error + jobject \<times> tokens) \<times> world" where
  "createUser L C intf now rnd userData w =
     (case findOne_email (cd_email userData) (users w) of
        Some existingUser \<Rightarrow> (Inl (AppError ''Email already registered'' 409), w)
      | None \<Rightarrow>
          (case precheck_username userData (users w) of
             Some existingUsername \<Rightarrow> (Inl (AppError ''Username already taken'' 409), w)
           | None \<Rightarrow>
               let w0 = w\<lparr>users := intf (users w)\<rparr>;
                   d = new_User userData (fresh_id (users w0))
               in (case save L C rnd d w0 of
                     (Inl err, w1) \<Rightarrow> (Inl err, w1)
                   | (Inr d1, w1) \<Rightarrow>
                       (case generateTokens L C now rnd d1 w1 of
                          (Inl err, w2) \<Rightarrow> (Inl err, w2)
                        | (Inr (toks, d2), w2) \<Rightarrow>
                            (Inr (delete_key ''refreshTokens'' (delete_key ''password'' (toObject d2)),
                                  toks), w2)))))"

text \<open>\<^verbatim>\<open>changePassword(userId, currentPassword, newPassword)\<close>.\<close>

definition changePassword ::
  "libs \<Rightarrow> config \<Rightarrow> nat \<Rightarrow> nat \<Rightarrow> string \<Rightarrow> string \<Rightarrow> world \<Rightarrow> (error + string) \<times> world" where
  "changePassword L C rnd userId currentPassword newPassword w =
     (case findById userId (users w) of
        None \<Rightarrow> (Inl (AppError ''User not found'' 404), w)
      | Some u \<Rightarrow>
          let d = hydrate True u in
          if \<not> comparePassword L d currentPassword
          then (Inl (AppError ''Current password is incorrect'' 401), w)
          else (case save L C rnd (set_password d newPassword) w of
                  (Inl err, w1) \<Rightarrow> (Inl err, w1)
                | (Inr d1, w1) \<Rightarrow> (Inr ''Password changed successfully'', w1)))"

text \<open>\<^verbatim>\<open>deleteUser(userId)\<close>: the soft delete.\<close>

definition deleteUser :: "nat \<Rightarrow> world \<Rightarrow> (error + document) \<times> world" where
  "deleteUser userId w =
     (case findById userId (users w) of
        None \<Rightarrow> (Inl (AppError ''User not found'' 404), w)
      | Some u \<Rightarrow>
          (Inr (hydrate False (u\<lparr>isActive := False\<rparr>)),
           w\<lparr>users := map (\<lambda>v. if uid v = userId then v\<lparr>isActive := False\<rparr> else v) (users w)\<rparr>))"

text \<open>
  \<^verbatim>\<open>verifyToken(token)\<close>: whatever \<^verbatim>\<open>jwt.verify\<close> throws is caught and replaced by
  one error.  Like every method of the service it runs with the collection in
  scope, so the model passes the state through it.
\<close>

definition verifyToken :: "libs \<Rightarrow> config \<Rightarrow> nat \<Rightarrow> string \<Rightarrow> world \<Rightarrow> (error + claims) \<times> world" where
  "verifyToken L C now tok w =
     (case jwt_verify L tok (jwt_secret C) now of
        Inl thrown \<Rightarrow> (Inl (AppError ''Invalid or expired token'' 401), w)
      | Inr decoded \<Rightarrow> (Inr decoded, w))"

subsection \<open>Middlewares and controllers\<close>

text \<open>
  \<^verbatim>\<open>authenticate\<close>: the \<^verbatim>\<open>Authorization\<close> header must start with "Bearer "; the
  rest is verified and the decoded claims become \<^verbatim>\<open>req.user\<close>.
\<close>

definition authenticate ::
  "libs \<Rightarrow> config \<Rightarrow> nat \<Rightarrow> string option \<Rightarrow> world \<Rightarrow> (error + claims) \<times> world" where
  "authenticate L C now authHeader w =
     (case authHeader of
        None \<Rightarrow> (Inl (AppError ''No token provided'' 401), w)
      | Some h \<Rightarrow>
          if take 7 h \<noteq> ''Bearer '' then (Inl (AppError ''No token provided'' 401), w)
          else verifyToken L C now (drop 7 h) w)"

definition tokens_json :: "tokens \<Rightarrow> jval" where
  "tokens_json t =
     JObj [(''accessToken'', JStr (accessToken t)), (''refreshToken'', JStr (refreshToken t))]"

definition ok_reply :: "nat \<Rightarrow> jobject \<Rightarrow> response" where
  "ok_reply code dat = \<lparr>status = code, body = [(''success'', JBool True), (''data'', JObj dat)]\<rparr>"

text \<open>
  The register and login controllers followed by the error handler, on a body that
  passed the validation middleware.
\<close>

definition register ::
  "libs \<Rightarrow> config \<Rightarrow> (user list \<Rightarrow> user list) \<Rightarrow> nat \<Rightarrow> nat \<Rightarrow> candidate \<Rightarrow> world
     \<Rightarrow> response \<times> world" where
  "register L C intf now rnd reqBody w =
     (case createUser L C intf now rnd reqBody w of
        (Inl err, w') \<Rightarrow> (errorHandler err, w')
      | (Inr (usr, toks), w') \<Rightarrow>
          (ok_reply 201 [(''user'', JObj usr), (''tokens'', tokens_json toks)], w'))"

definition login ::
  "libs \<Rightarrow> config \<Rightarrow> nat \<Rightarrow> nat \<Rightarrow> string \<Rightarrow> string \<Rightarrow> world \<Rightarrow> response \<times> world" where
  "login L C now rnd e pw w =
     (case loginUser L C now rnd e pw w of
        (Inl err, w') \<Rightarrow> (errorHandler err, w')
      | (Inr (usr, toks), w') \<Rightarrow>
          (ok_reply 200 [(''user'', JObj usr), (''tokens'', tokens_json toks)], w'))"

subsection \<open>Profile update\<close>

text \<open>
  A Joi object schema: its keys, and the rule of each key (the violations of a
  value, each the dotted path of the detail, such as \<^verbatim>\<open>preferences.language\<close>, with
  its message).  \<open>joi_validate\<close> is
  \<^verbatim>\<open>schema.validate(body, {abortEarly: false, stripUnknown: true})\<close> for a schema
  whose keys are all optional: it returns the violations of the known keys and the
  value with the unknown keys stripped.  Joi builds that value as a copy; the
  object it is given is not changed.
\<close>

record joi_schema =
  joi_keys :: "string list"
  joi_rule :: "string \<Rightarrow> jval \<Rightarrow> (string \<times> string) list"

definition joi_validate :: "joi_schema \<Rightarrow> jobject \<Rightarrow> (string \<times> string) list \<times> jobject" where
  "joi_validate S b =
     (let known = filter (\<lambda>kv. fst kv \<in> set (joi_keys S)) b
      in (concat (map (\<lambda>kv. joi_rule S (fst kv) (snd kv)) known), known))"

text \<open>
  \<^verbatim>\<open>userSchemas.updateProfile\<close>: the six keys of the source.  The rules of the
  keys (lengths, formats, nested objects) are Joi's and are a parameter.
\<close>

definition updateProfile_schema :: "(string \<Rightarrow> jval \<Rightarrow> (string \<times> string) list) \<Rightarrow> joi_schema" where
  "updateProfile_schema rules =
     \<lparr>joi_keys = [''firstName'', ''lastName'', ''username'', ''avatar'', ''preferences'',
                  ''learningProfile''],
      joi_rule = rules\<rparr>"

text \<open>
  The \<^verbatim>\<open>validate(schema)\<close> middleware.  It destructures only \<^verbatim>\<open>error\<close> from the
  result of \<^verbatim>\<open>schema.validate\<close>; the stripped \<^verbatim>\<open>value\<close> is dropped and
  \<^verbatim>\<open>req.body\<close> is never assigned, so the next handler sees the body as it came.
  The result is the error passed to \<^verbatim>\<open>next\<close>, or the \<^verbatim>\<open>req.body\<close> of the next
  handler.
\<close>

definition validate :: "joi_schema \<Rightarrow> jobject \<Rightarrow> error + jobject" where
  "validate S reqBody =
     (let (details, val) = joi_validate S reqBody
      in if details \<noteq> [] then Inl (AppErrorDetails ''Validation failed'' 400 details)
         else Inr reqBody)"

text \<open>JavaScript truthiness, for \<^verbatim>\<open>if (updateData.username)\<close>.\<close>

fun truthy :: "jval \<Rightarrow> bool" where
  "truthy JNull = False"
| "truthy (JBool b) = b"
| "truthy (JNum n) = (n \<noteq> 0)"
| "truthy (JStr s) = (s \<noteq> [])"
| "truthy (JArr xs) = True"
| "truthy (JObj kvs) = True"

text \<open>
  One key of \<^verbatim>\<open>{ $set: updateData }\<close> under \<^verbatim>\<open>runValidators: true\<close>: the value is
  cast to the type of the path, the setters and the validators of the path run, and
  the result is the write to the document.  The model takes a value of the path's
  own JSON type only and answers any other with a cast error, where Mongoose also
  converts scalars (the string "false" to a boolean, a number to a string); nested
  objects are stored as given, where strict mode drops their unknown keys; the
  texts of the validation messages are paraphrased.  A key that is no path of the schema is dropped (strict mode).  The
  paths \<^verbatim>\<open>lastLogin\<close> and \<^verbatim>\<open>refreshTokens\<close> are left out of this function.
  \<^verbatim>\<open>findByIdAndUpdate\<close> is a query: the pre-save hook does not run, so a password
  set here is stored as given.
\<close>

definition set_path :: "string \<times> jval \<Rightarrow> error + (user \<Rightarrow> user)" where
  "set_path kv =
     (let k = fst kv; v = snd kv in
      if k = ''firstName'' then
        (case v of JStr s \<Rightarrow> Inr (\<lambda>u. u\<lparr>firstName := trim s\<rparr>) | _ \<Rightarrow> Inl CastError)
      else if k = ''lastName'' then
        (case v of JStr s \<Rightarrow> Inr (\<lambda>u. u\<lparr>lastName := trim s\<rparr>) | _ \<Rightarrow> Inl CastError)
      else if k = ''username'' then
        (case v of JStr s \<Rightarrow> Inr (\<lambda>u. u\<lparr>username := Some (lowercase_trim s)\<rparr>)
         | _ \<Rightarrow> Inl CastError)
      else if k = ''avatar'' then
        (case v of JStr s \<Rightarrow> Inr (\<lambda>u. u\<lparr>avatar := Some s\<rparr>)
         | JNull \<Rightarrow> Inr (\<lambda>u. u\<lparr>avatar := None\<rparr>)
         | _ \<Rightarrow> Inl CastError)
      else if k = ''preferences'' then Inr (\<lambda>u. u\<lparr>preferences := v\<rparr>)
      else if k = ''learningProfile'' then Inr (\<lambda>u. u\<lparr>learningProfile := v\<rparr>)
      else if k = ''email'' then
        (case v of JStr s \<Rightarrow> Inr (\<lambda>u. u\<lparr>email := lowercase_trim s\<rparr>) | _ \<Rightarrow> Inl CastError)
      else if k = ''password'' then
        (case v of
           JStr s \<Rightarrow> if length s < 8
                     then Inl (ValidationError [''password is shorter than the minimum allowed length (8)''])
                     else Inr (\<lambda>u. u\<lparr>password := s\<rparr>)
         | _ \<Rightarrow> Inl CastError)
      else if k = ''role'' then
        (case v of
           JStr s \<Rightarrow> if s \<in> set [''student'', ''instructor'', ''admin'']
                     then Inr (\<lambda>u. u\<lparr>role := s\<rparr>)
                     else Inl (ValidationError [''role is not a valid enum value''])
         | _ \<Rightarrow> Inl CastError)
      else if k = ''isActive'' then
        (case v of JBool b \<Rightarrow> Inr (\<lambda>u. u\<lparr>isActive := b\<rparr>) | _ \<Rightarrow> Inl CastError)
      else Inr (\<lambda>u. u))"

fun set_paths :: "jobject \<Rightarrow> error + (user \<Rightarrow> user)" where
  "set_paths [] = Inr (\<lambda>u. u)"
| "set_paths (kv # kvs) =
     (case set_path kv of
        Inl e \<Rightarrow> Inl e
      | Inr f \<Rightarrow> (case set_paths kvs of Inl e \<Rightarrow> Inl e | Inr g \<Rightarrow> Inr (\<lambda>u. g (f u))))"

text \<open>
  \<^verbatim>\<open>User.findByIdAndUpdate(userId, { $set: updateData }, { new: true, runValidators: true })\<close>:
  \<open>Inr None\<close> when no document has the id, else the updated document and collection.
  The unique indexes are checked against the other documents.
\<close>

definition findByIdAndUpdate_set ::
  "nat \<Rightarrow> jobject \<Rightarrow> user list \<Rightarrow> error + (user \<times> user list) option" where
  "findByIdAndUpdate_set userId updateData us =
     (case set_paths updateData of
        Inl e \<Rightarrow> Inl e
      | Inr f \<Rightarrow>
          (case findById userId us of
             None \<Rightarrow> Inr None
           | Some u \<Rightarrow>
               (case unique_violation (f u) (filter (\<lambda>v. uid v \<noteq> userId) us) of
                  Some key \<Rightarrow> Inl (DuplicateKeyError key)
                | None \<Rightarrow> Inr (Some (f u, map (\<lambda>v. if uid v = userId then f u else v) us)))))"

text \<open>\<^verbatim>\<open>updateUser(userId, updateData)\<close>.  The username of the filter is a string here.\<close>

definition updateUser :: "nat \<Rightarrow> jobject \<Rightarrow> world \<Rightarrow> (error + document) \<times> world" where
  "updateUser userId updateData w =
     (if (case map_of updateData ''username'' of
            Some (JStr n) \<Rightarrow>
              truthy (JStr n)
              \<and> find (\<lambda>u. username u = Some (lowercase_trim n) \<and> uid u \<noteq> userId) (users w) \<noteq> None
          | _ \<Rightarrow> False)
      then (Inl (AppError ''Username already taken'' 409), w)
      else
        (case findByIdAndUpdate_set userId updateData (users w) of
           Inl e \<Rightarrow> (Inl e, w)
         | Inr None \<Rightarrow> (Inl (AppError ''User not found'' 404), w)
         | Inr (Some (u', us')) \<Rightarrow> (Inr (hydrate False u'), w\<lparr>users := us'\<rparr>)))"

text \<open>
  \<^verbatim>\<open>res.json\<close> of a document runs the \<^verbatim>\<open>toJSON\<close> transform of the schema, which
  deletes the password and the refresh tokens.
\<close>

definition toJSON :: "document \<Rightarrow> jobject" where
  "toJSON d = delete_key ''refreshTokens'' (delete_key ''password'' (toObject d))"

text \<open>
  The route \<^verbatim>\<open>PUT /api/users/profile\<close>:
  \<^verbatim>\<open>authenticate, validate(userSchemas.updateProfile), userController.updateProfile\<close>,
  and the error handler.  The controller passes \<^verbatim>\<open>req.user.id\<close> and \<^verbatim>\<open>req.body\<close> to
  \<^verbatim>\<open>updateUser\<close>.
\<close>

definition put_profile ::
  "libs \<Rightarrow> config \<Rightarrow> (string \<Rightarrow> jval \<Rightarrow> (string \<times> string) list) \<Rightarrow> nat \<Rightarrow> string option
     \<Rightarrow> jobject \<Rightarrow> world
     \<Rightarrow> response \<times> world" where
  "put_profile L C rules now authHeader reqBody w =
     (case authenticate L C now authHeader w of
        (Inl err, w1) \<Rightarrow> (errorHandler err, w1)
      | (Inr reqUser, w1) \<Rightarrow>
          (case validate (updateProfile_schema rules) reqBody of
             Inl err \<Rightarrow> (errorHandler err, w1)
           | Inr b \<Rightarrow>
               (case updateUser (c_id reqUser) b w1 of
                  (Inl err, w2) \<Rightarrow> (errorHandler err, w2)
                | (Inr d, w2) \<Rightarrow> (ok_reply 200 [(''user'', JObj (toJSON d))], w2))))"

subsection \<open>A stub instance of the libraries\<close>

text \<open>
  Executable stand-ins for jsonwebtoken and bcryptjs, used to run the model on
  concrete requests.  A token is the readable encoding of the secret, the claims and
  the expiry; a hash is the salt followed by the plaintext.  Numbers are written in
  unary and strings with their length first, so decoding is unambiguous.
\<close>

definition enc_nat :: "nat \<Rightarrow> string" where
  "enc_nat n = replicate n (CHR ''1'') @ ''0''"

definition dec_nat :: "string \<Rightarrow> nat \<times> string" where
  "dec_nat s = (length (takeWhile (\<lambda>c. c = CHR ''1'') s), drop 1 (dropWhile (\<lambda>c. c = CHR ''1'') s))"

definition enc_str :: "string \<Rightarrow> string" where
  "enc_str s = enc_nat (length s) @ s"

definition dec_str :: "string \<Rightarrow> string \<times> string" where
  "dec_str s = (let (n, r) = dec_nat s in (take n r, drop n r))"

definition stub_ttl :: "string \<Rightarrow> nat" where
  "stub_ttl x = (if x = ''7d'' then 7 else if x = ''30d'' then 30 else 1)"

definition stub_sign :: "payload \<Rightarrow> string \<Rightarrow> string \<Rightarrow> nat \<Rightarrow> string" where
  "stub_sign pl secret expiresIn now =
     enc_str secret @ enc_nat (p_id pl) @ enc_nat now @ enc_nat (now + stub_ttl expiresIn)
     @ enc_str (p_role pl) @ enc_str (p_email pl)"

text \<open>
  HMAC pads a short key with zero bytes, so secrets that differ only in trailing
  zero bytes are one key.  The stub verifier compares keys the same way.
\<close>

definition hmac_key :: "string \<Rightarrow> string" where
  "hmac_key secret = rev (dropWhile (\<lambda>c. c = CHR 0x00) (rev secret))"

definition stub_verify :: "string \<Rightarrow> string \<Rightarrow> nat \<Rightarrow> jwt_error + claims" where
  "stub_verify tok secret now =
     (let (k, r1) = dec_str tok; (i, r2) = dec_nat r1; (t0, r3) = dec_nat r2;
          (t1, r4) = dec_nat r3; (ro, r5) = dec_str r4; (em, r6) = dec_str r5
      in if tok \<noteq> enc_str k @ enc_nat i @ enc_nat t0 @ enc_nat t1 @ enc_str ro @ enc_str em
         then Inl JsonWebTokenError
         else if hmac_key k \<noteq> hmac_key secret then Inl JsonWebTokenError
         else if t1 \<le> now then Inl TokenExpiredError
         else Inr \<lparr>c_id = i, c_email = em, c_role = ro, c_iat = t0, c_exp = t1\<rparr>)"

definition stub_genSalt :: "nat \<Rightarrow> nat \<Rightarrow> string" where
  "stub_genSalt rounds rnd = enc_nat (rnd mod 4)"

definition stub_hash :: "string \<Rightarrow> string \<Rightarrow> string" where
  "stub_hash plaintext salt = ''$'' @ enc_str salt @ plaintext"

definition stub_compare :: "string \<Rightarrow> string \<Rightarrow> bool" where
  "stub_compare candidate h =
     (case h of [] \<Rightarrow> False | x # r \<Rightarrow> x = CHR ''$'' \<and> snd (dec_str r) = candidate)"

definition stub_libs :: libs where
  "stub_libs = \<lparr>jwt_sign = stub_sign, jwt_verify = stub_verify,
                bcrypt_genSalt = stub_genSalt, bcrypt_hash = stub_hash,
                bcrypt_compare = stub_compare\<rparr>"

definition cfg :: config where
  "cfg = \<lparr>jwt_secret = ''k1'', jwt_expiresIn = ''7d'',
          jwt_refreshSecret = ''k2'', jwt_refreshExpiresIn = ''30d'',
          bcrypt_saltRounds = 12\<rparr>"

text \<open>A registration payload, and the record that registering it stores.\<close>

definition ann_data :: candidate where
  "ann_data = \<lparr>cd_email = ''a@x.com'', cd_password = ''pw123456'', cd_firstName = ''A'',
               cd_lastName = ''B'', cd_username = None, cd_role = None\<rparr>"

definition ann :: user where
  "ann = \<lparr>uid = 1, email = ''a@x.com'', password = ''$100pw123456'', firstName = ''A'',
          lastName = ''B'', username = None, role = ''student'', avatar = None,
          isActive = True, lastLogin = None, refreshTokens = [],
          preferences = default_preferences, learningProfile = default_learningProfile\<rparr>"

definition world0 :: world where
  "world0 = \<lparr>users = [], hashCalls = 0\<rparr>"

definition world1 :: world where
  "world1 = \<lparr>users = [ann], hashCalls = 1\<rparr>"

definition world_off :: world where
  "world_off = \<lparr>users = [ann\<lparr>isActive := False\<rparr>], hashCalls = 1\<rparr>"

text \<open>The tokens the stub issues for that record at time 1.\<close>

definition ann_access :: string where
  "ann_access = ''110k1101011111111011111110student11111110a@x.com''"

definition ann_refresh :: string where
  "ann_refresh = ''110k210101111111111111111111111111111111011111110student11111110a@x.com''"

subsection \<open>What is assumed of jsonwebtoken\<close>

text \<open>
  The signature binds a token to the key it was signed with: a token signed under
  one secret does not verify under a secret that is another key (at any time, for
  any payload and lifetime).  \<open>same_key\<close> says which secrets are one key to the
  library: for the HMAC algorithms, secrets that are equal once padded with zero
  bytes to the block length (longer ones once hashed); for a library that uses the
  secret as it is, equality.
\<close>

definition jwt_binds_key :: "libs \<Rightarrow> (string \<Rightarrow> string \<Rightarrow> bool) \<Rightarrow> bool" where
  "jwt_binds_key L same_key =
     (\<forall>pl k k' x t t'. \<not> same_key k k' \<longrightarrow> isl (jwt_verify L (jwt_sign L pl k x t) k' t'))"

text \<open>The hash the pre-save hook stores for a plaintext.\<close>

definition hashed_password :: "libs \<Rightarrow> config \<Rightarrow> nat \<Rightarrow> string \<Rightarrow> string" where
  "hashed_password L C rnd plaintext =
     bcrypt_hash L plaintext (bcrypt_genSalt L (bcrypt_saltRounds C) rnd)"

text \<open>More sample data: a stored record with a username, a payload that collides with it,
  and two runs of the service.\<close>

definition world_named :: world where
  "world_named = \<lparr>users = [ann\<lparr>username := Some ''ann''\<rparr>], hashCalls = 1\<rparr>"

definition other_data :: candidate where
  "other_data = \<lparr>cd_email = ''A@X.com '', cd_password = ''zzzzzzzz'', cd_firstName = ''Z'',
                 cd_lastName = ''Y'', cd_username = Some ''Ann'', cd_role = Some ''admin''\<rparr>"

definition run_login :: "(error + jobject \<times> tokens) \<times> world" where
  "run_login = loginUser stub_libs cfg 1 0 ''a@x.com'' ''pw123456'' world1"

definition run_register :: "(error + jobject \<times> tokens) \<times> world" where
  "run_register = createUser stub_libs cfg (\<lambda>us. us) 1 0 ann_data world0"

text \<open>A profile-update body made of keys that the updateProfile schema does not list.\<close>

definition attack_body :: jobject where
  "attack_body = [(''role'', JStr ''admin''), (''email'', JStr ''m@x.com''),
                  (''password'', JStr ''plainpass''), (''isActive'', JBool False)]"

section \<open>Properties\<close>

subsection \<open>Login failures\<close>

text \<open>
  C4.  A login with an email that no record has, and a login with the email of a
  record and a password that \<^verbatim>\<open>comparePassword\<close> rejects, both fail with the same
  error: status 401 and the message "Invalid email or password"; nothing is written.
\<close>

theorem login_unknown_email_and_wrong_password_same_error:
  "(findOne_email e (users w) = None \<longrightarrow>
      loginUser L C now rnd e pw w = (Inl (AppError ''Invalid email or password'' 401), w))
   \<and> (findOne_email e' (users w) = Some u \<and> \<not> bcrypt_compare L pw' (password u) \<longrightarrow>
      loginUser L C now rnd e' pw' w = (Inl (AppError ''Invalid email or password'' 401), w))"
  by (simp add: loginUser_def comparePassword_def hydrate_def)

theorem login_unknown_email_and_wrong_password_same_error_witness:
  "findOne_email ''b@x.com'' (users world1) = None
   \<and> loginUser stub_libs cfg 1 0 ''b@x.com'' ''pw123456'' world1
       = (Inl (AppError ''Invalid email or password'' 401), world1)
   \<and> findOne_email ''a@x.com'' (users world1) = Some ann
   \<and> \<not> bcrypt_compare stub_libs ''wrongpw'' (password ann)
   \<and> loginUser stub_libs cfg 1 0 ''a@x.com'' ''wrongpw'' world1
       = (Inl (AppError ''Invalid email or password'' 401), world1)"
proof -
  have h1: "findOne_email ''b@x.com'' (users world1) = None"
    by code_simp
  have h2: "findOne_email ''a@x.com'' (users world1) = Some ann"
    by code_simp
  have h3: "\<not> bcrypt_compare stub_libs ''wrongpw'' (password ann)"
    by code_simp
  from login_unknown_email_and_wrong_password_same_error
         [of "''b@x.com''" world1 stub_libs cfg 1 0 "''pw123456''" "''a@x.com''" ann "''wrongpw''"]
       h1 h2 h3
  show ?thesis by blast
qed

text \<open>
  C6.  When the email is that of a record whose \<^verbatim>\<open>isActive\<close> flag is false, a login
  with a password that \<^verbatim>\<open>comparePassword\<close> accepts fails with 403 "Account is
  deactivated", and one with a password it rejects fails with 401: the password is
  checked first.  Nothing is written in either case.
\<close>

theorem login_deactivated_after_password_check:
  "findOne_email e (users w) = Some u \<and> \<not> isActive u \<longrightarrow>
     loginUser L C now rnd e pw w =
       (if bcrypt_compare L pw (password u)
        then Inl (AppError ''Account is deactivated'' 403)
        else Inl (AppError ''Invalid email or password'' 401), w)"
  by (simp add: loginUser_def comparePassword_def hydrate_def)

theorem login_deactivated_after_password_check_witness:
  "findOne_email ''a@x.com'' (users world_off) = Some (ann\<lparr>isActive := False\<rparr>)
   \<and> \<not> isActive (ann\<lparr>isActive := False\<rparr>)
   \<and> loginUser stub_libs cfg 1 0 ''a@x.com'' ''pw123456'' world_off
       = (Inl (AppError ''Account is deactivated'' 403), world_off)
   \<and> loginUser stub_libs cfg 1 0 ''a@x.com'' ''wrongpw'' world_off
       = (Inl (AppError ''Invalid email or password'' 401), world_off)"
proof -
  have h: "findOne_email ''a@x.com'' (users world_off) = Some (ann\<lparr>isActive := False\<rparr>)"
    by code_simp
  have ok: "bcrypt_compare stub_libs ''pw123456'' (password (ann\<lparr>isActive := False\<rparr>))"
    by code_simp
  have bad: "\<not> bcrypt_compare stub_libs ''wrongpw'' (password (ann\<lparr>isActive := False\<rparr>))"
    by code_simp
  from login_deactivated_after_password_check
         [of "''a@x.com''" world_off "ann\<lparr>isActive := False\<rparr>" stub_libs cfg 1 0 "''pw123456''"]
       login_deactivated_after_password_check
         [of "''a@x.com''" world_off "ann\<lparr>isActive := False\<rparr>" stub_libs cfg 1 0 "''wrongpw''"]
       h ok bad
  show ?thesis by simp
qed

subsection \<open>Token verification\<close>

lemma dec_nat_enc_nat: "dec_nat (enc_nat n @ r) = (n, r)"
  by (induction n) (simp_all add: dec_nat_def enc_nat_def)

lemma dec_str_enc_str: "dec_str (enc_str s @ r) = (s, r)"
  by (simp add: dec_str_def enc_str_def dec_nat_enc_nat)

lemma stub_binds_key: "jwt_binds_key stub_libs (\<lambda>k k'. hmac_key k = hmac_key k')"
  unfolding jwt_binds_key_def
proof (intro allI impI)
  fix pl k k' x t t'
  assume "hmac_key k \<noteq> hmac_key k'"
  have "dec_str (stub_sign pl k x t) =
          (k, enc_nat (p_id pl) @ enc_nat t @ enc_nat (t + stub_ttl x)
              @ enc_str (p_role pl) @ enc_str (p_email pl))"
    unfolding stub_sign_def by (rule dec_str_enc_str)
  with \<open>hmac_key k \<noteq> hmac_key k'\<close>
  show "isl (jwt_verify stub_libs (jwt_sign stub_libs pl k x t) k' t')"
    by (simp add: stub_libs_def stub_verify_def Let_def split: prod.splits)
qed

text \<open>
  C7.  For every token string, whatever error \<^verbatim>\<open>jwt.verify\<close> throws (expired,
  malformed, bad signature), \<^verbatim>\<open>verifyToken\<close> fails with the one error 401 "Invalid or
  expired token"; this holds of any library.  For a library whose signatures bind a
  token to its key, the refresh token that \<^verbatim>\<open>generateTokens\<close> issues is rejected by
  \<^verbatim>\<open>verifyToken\<close> whenever the refresh secret and the access secret of the
  configuration are different keys.
\<close>

theorem verifyToken_unauthorized_only:
  "(jwt_verify L tok (jwt_secret C) now = Inl thrown \<longrightarrow>
      verifyToken L C now tok w = (Inl (AppError ''Invalid or expired token'' 401), w))
   \<and> (jwt_binds_key L same_key
        \<and> \<not> same_key (jwt_refreshSecret C) (jwt_secret C)
        \<and> generateTokens L C t rnd d w0 = (Inr (toks, d'), w1) \<longrightarrow>
      verifyToken L C now (refreshToken toks) w
        = (Inl (AppError ''Invalid or expired token'' 401), w))"
proof (intro conjI impI)
  assume "jwt_verify L tok (jwt_secret C) now = Inl thrown"
  then show "verifyToken L C now tok w = (Inl (AppError ''Invalid or expired token'' 401), w)"
    by (simp add: verifyToken_def)
next
  assume a: "jwt_binds_key L same_key
        \<and> \<not> same_key (jwt_refreshSecret C) (jwt_secret C)
        \<and> generateTokens L C t rnd d w0 = (Inr (toks, d'), w1)"
  define pl where "pl = \<lparr>p_id = uid (attrs d), p_email = email (attrs d), p_role = role (attrs d)\<rparr>"
  from a have rt: "refreshToken toks = jwt_sign L pl (jwt_refreshSecret C) (jwt_refreshExpiresIn C) t"
    by (auto simp: generateTokens_def Let_def pl_def split: prod.splits sum.splits)
  from a have "isl (jwt_verify L (refreshToken toks) (jwt_secret C) now)"
    unfolding rt jwt_binds_key_def by blast
  then show "verifyToken L C now (refreshToken toks) w
              = (Inl (AppError ''Invalid or expired token'' 401), w)"
    by (auto simp: verifyToken_def isl_def)
qed

theorem verifyToken_unauthorized_only_witness:
  "jwt_verify stub_libs ''garbage'' (jwt_secret cfg) 2 = Inl JsonWebTokenError
   \<and> verifyToken stub_libs cfg 2 ''garbage'' world1
       = (Inl (AppError ''Invalid or expired token'' 401), world1)
   \<and> jwt_verify stub_libs ann_access (jwt_secret cfg) 8 = Inl TokenExpiredError
   \<and> verifyToken stub_libs cfg 8 ann_access world1
       = (Inl (AppError ''Invalid or expired token'' 401), world1)
   \<and> jwt_binds_key stub_libs (\<lambda>k k'. hmac_key k = hmac_key k')
   \<and> hmac_key (jwt_refreshSecret cfg) \<noteq> hmac_key (jwt_secret cfg)
   \<and> refreshToken (fst (projr (fst (generateTokens stub_libs cfg 1 0 (hydrate True ann) world1))))
       = ann_refresh
   \<and> verifyToken stub_libs cfg 2 ann_refresh world1
       = (Inl (AppError ''Invalid or expired token'' 401), world1)"
proof -
  define G where "G = generateTokens stub_libs cfg 1 0 (hydrate True ann) world1"
  have g: "G = (Inr (fst (projr (fst G)), snd (projr (fst G))), snd G)"
    unfolding G_def by code_simp
  have r: "refreshToken (fst (projr (fst G))) = ann_refresh"
    unfolding G_def by code_simp
  have m: "jwt_verify stub_libs ''garbage'' (jwt_secret cfg) 2 = Inl JsonWebTokenError"
    by code_simp
  have x: "jwt_verify stub_libs ann_access (jwt_secret cfg) 8 = Inl TokenExpiredError"
    by code_simp
  have s: "hmac_key (jwt_refreshSecret cfg) \<noteq> hmac_key (jwt_secret cfg)"
    by code_simp
  note a = verifyToken_unauthorized_only
             [of stub_libs _ cfg _ _ world1 "\<lambda>k k'. hmac_key k = hmac_key k'"]
  from a [of "''garbage''" 2 JsonWebTokenError] m
  have 1: "verifyToken stub_libs cfg 2 ''garbage'' world1
             = (Inl (AppError ''Invalid or expired token'' 401), world1)"
    by blast
  from a [of ann_access 8 TokenExpiredError] x
  have 2: "verifyToken stub_libs cfg 8 ann_access world1
             = (Inl (AppError ''Invalid or expired token'' 401), world1)"
    by blast
  from a [of _ 2 _ 1 0 "hydrate True ann" world1 "fst (projr (fst G))" "snd (projr (fst G))" "snd G"]
       stub_binds_key s g r
  have 3: "verifyToken stub_libs cfg 2 ann_refresh world1
             = (Inl (AppError ''Invalid or expired token'' 401), world1)"
    unfolding G_def by metis
  from stub_binds_key m x s r 1 2 3 show ?thesis
    unfolding G_def by blast
qed

text \<open>
  C8.  The result of \<^verbatim>\<open>verifyToken\<close>, and of the \<^verbatim>\<open>authenticate\<close> middleware built
  on it, is the same in any two states of the collection, and neither changes the
  state: they depend on the token, the access secret and the clock only.
\<close>

theorem verifyToken_ignores_store:
  "fst (verifyToken L C now tok w) = fst (verifyToken L C now tok w')
   \<and> snd (verifyToken L C now tok w) = w
   \<and> fst (authenticate L C now hdr w) = fst (authenticate L C now hdr w')
   \<and> snd (authenticate L C now hdr w) = w"
  by (simp add: verifyToken_def authenticate_def split: sum.splits option.splits)

text \<open>A token issued before the account is deactivated verifies afterwards as before.\<close>

theorem verifyToken_ignores_store_witness:
  "fst (verifyToken stub_libs cfg 2 ann_access (snd (deleteUser 1 world1)))
     = Inr \<lparr>c_id = 1, c_email = ''a@x.com'', c_role = ''student'', c_iat = 1, c_exp = 8\<rparr>
   \<and> users (snd (deleteUser 1 world1)) = [ann\<lparr>isActive := False\<rparr>]"
proof -
  have "fst (verifyToken stub_libs cfg 2 ann_access world1)
          = Inr \<lparr>c_id = 1, c_email = ''a@x.com'', c_role = ''student'', c_iat = 1, c_exp = 8\<rparr>"
    by code_simp
  moreover have "users (snd (deleteUser 1 world1)) = [ann\<lparr>isActive := False\<rparr>]"
    by code_simp
  ultimately show ?thesis
    using verifyToken_ignores_store [of stub_libs cfg 2 ann_access world1 "snd (deleteUser 1 world1)"]
    by simp
qed

subsection \<open>Saving documents\<close>

lemma save_unmodified:
  "\<not> isNew d \<Longrightarrow> \<not> passwordModified d \<Longrightarrow>
   save L C rnd d w =
     (Inr d, w\<lparr>users := map (\<lambda>u. if uid u = uid (attrs d) then attrs d else u) (users w)\<rparr>)"
  by (simp add: save_def pre_save_def)

lemma find_replaced:
  "\<exists>v \<in> set us. uid v = i \<Longrightarrow> uid x = i \<Longrightarrow>
   find (\<lambda>v. uid v = i) (map (\<lambda>v. if uid v = i then x else v) us) = Some x"
  by (induction us) auto

lemma replaced_has_id:
  "\<exists>v \<in> set us. uid v = i \<Longrightarrow> uid x = i \<Longrightarrow>
   \<exists>v \<in> set (map (\<lambda>v. if uid v = i then x else v) us). uid v = i"
  by (induction us) auto

lemma find_Some_set: "find P us = Some u \<Longrightarrow> u \<in> set us \<and> P u"
  by (induction us) (auto split: if_splits)

lemma fresh_id_greater: "u \<in> set us \<Longrightarrow> uid u < fresh_id us"
  by (induction us) (auto simp: fresh_id_def)

lemma find_fresh: "find (\<lambda>v. uid v = fresh_id us) us = None"
  using fresh_id_greater by (fastforce simp: find_None_iff)

lemma generateTokens_saved:
  "\<not> isNew d \<Longrightarrow> \<not> passwordModified d \<Longrightarrow>
   generateTokens L C now rnd d w =
     (let rt = jwt_sign L \<lparr>p_id = uid (attrs d), p_email = email (attrs d), p_role = role (attrs d)\<rparr>
                 (jwt_refreshSecret C) (jwt_refreshExpiresIn C) now;
          u' = (attrs d)\<lparr>refreshTokens := refreshTokens (attrs d) @ [(rt, now)]\<rparr>
      in (Inr (\<lparr>accessToken = jwt_sign L \<lparr>p_id = uid (attrs d), p_email = email (attrs d),
                                            p_role = role (attrs d)\<rparr>
                                  (jwt_secret C) (jwt_expiresIn C) now,
                 refreshToken = rt\<rparr>, d\<lparr>attrs := u'\<rparr>),
          w\<lparr>users := map (\<lambda>u. if uid u = uid (attrs d) then u' else u) (users w)\<rparr>))"
  by (simp add: generateTokens_def Let_def save_unmodified)

lemma loginUser_success:
  assumes "loginUser L C now rnd e pw w = (Inr (obj, toks), w')"
  obtains u where "findOne_email e (users w) = Some u"
    and "bcrypt_compare L pw (password u)" and "isActive u"
    and "refreshToken toks = jwt_sign L \<lparr>p_id = uid u, p_email = email u, p_role = role u\<rparr>
                 (jwt_refreshSecret C) (jwt_refreshExpiresIn C) now"
    and "w' = w\<lparr>users := map (\<lambda>v. if uid v = uid u
                   then u\<lparr>lastLogin := Some now, refreshTokens := refreshTokens u @ [(refreshToken toks, now)]\<rparr>
                   else v)
                 (map (\<lambda>v. if uid v = uid u then u\<lparr>lastLogin := Some now\<rparr> else v) (users w))\<rparr>"
    and "obj = toObject (hydrate True (u\<lparr>lastLogin := Some now, refreshTokens := refreshTokens u @ [(refreshToken toks, now)]\<rparr>))"
proof (cases "findOne_email e (users w)")
  case None
  with assms show ?thesis by (simp add: loginUser_def)
next
  case (Some u)
  have d: "\<not> isNew (hydrate True u\<lparr>attrs := u\<lparr>lastLogin := Some now\<rparr>\<rparr>)"
          "\<not> passwordModified (hydrate True u\<lparr>attrs := u\<lparr>lastLogin := Some now\<rparr>\<rparr>)"
    by (simp_all add: hydrate_def)
  from assms Some have ok: "bcrypt_compare L pw (password u)" "isActive u"
    by (auto simp: loginUser_def comparePassword_def hydrate_def Let_def split: if_splits)
  from assms Some ok d show ?thesis
    by (intro that [of u])
       (auto simp: loginUser_def comparePassword_def Let_def save_unmodified generateTokens_saved
                   hydrate_def)
qed


lemma createUser_success:
  assumes "createUser L C intf now rnd cd w = (Inr (obj, toks), w')"
  obtains u1 where
        "u1 = (attrs (new_User cd (fresh_id (intf (users w)))))
                \<lparr>password := hashed_password L C rnd (cd_password cd)\<rparr>"
    and "findOne_email (cd_email cd) (users w) = None"
    and "unique_violation u1 (intf (users w)) = None"
    and "refreshToken toks = jwt_sign L \<lparr>p_id = uid u1, p_email = email u1, p_role = role u1\<rparr>
                 (jwt_refreshSecret C) (jwt_refreshExpiresIn C) now"
    and "w' = \<lparr>users = map (\<lambda>v. if uid v = uid u1
                               then u1\<lparr>refreshTokens := [(refreshToken toks, now)]\<rparr> else v)
                            (intf (users w) @ [u1]),
               hashCalls = hashCalls w + 1\<rparr>"
    and "obj = delete_key ''refreshTokens'' (delete_key ''password''
                 (toObject \<lparr>attrs = u1\<lparr>refreshTokens := [(refreshToken toks, now)]\<rparr>,
                            isNew = False, passwordModified = False, passwordSelected = True\<rparr>))"
proof -
  define u1 where "u1 = (attrs (new_User cd (fresh_id (intf (users w)))))
                \<lparr>password := hashed_password L C rnd (cd_password cd)\<rparr>"
  define w0 where "w0 = w\<lparr>users := intf (users w)\<rparr>"
  define d1 where "d1 = \<lparr>attrs = u1, isNew = False, passwordModified = False, passwordSelected = True\<rparr>"
  have sv: "save L C rnd (new_User cd (fresh_id (users w0))) w0 =
          (case unique_violation u1 (intf (users w)) of
             Some f \<Rightarrow> (Inl (DuplicateKeyError f), w0\<lparr>hashCalls := hashCalls w + 1\<rparr>)
           | None \<Rightarrow> (Inr d1, \<lparr>users = intf (users w) @ [u1], hashCalls = hashCalls w + 1\<rparr>))"
    by (simp add: save_def pre_save_def new_User_def u1_def w0_def d1_def hashed_password_def
             split: option.splits)
  have nd: "\<not> isNew d1" "\<not> passwordModified d1" "attrs d1 = u1"
    by (simp_all add: d1_def)
  have rt0: "refreshTokens u1 = []"
    by (simp add: u1_def new_User_def)
  from assms have e: "findOne_email (cd_email cd) (users w) = None"
    by (auto simp: createUser_def split: option.splits)
  from assms have p: "precheck_username cd (users w) = None"
    by (auto simp: createUser_def split: option.splits)
  from assms e p sv have uv: "unique_violation u1 (intf (users w)) = None"
    by (auto simp: createUser_def Let_def w0_def split: option.splits)
  from assms e p sv uv nd rt0 show ?thesis
    by (intro that [of u1])
       (auto simp: createUser_def Let_def w0_def generateTokens_saved u1_def d1_def)
qed

text \<open>
  C3.  Every successful \<^verbatim>\<open>loginUser\<close> leaves the record it found with exactly one
  more refresh-token entry, appended at the end and holding the refresh token it
  returns; every successful \<^verbatim>\<open>createUser\<close> leaves the new record with that one
  entry.  The state returned with the tokens already holds the entry: the save is
  awaited before \<^verbatim>\<open>generateTokens\<close> returns.
\<close>

theorem refresh_token_appended_once:
  "(loginUser L C now rnd e pw w = (Inr (obj, toks), w') \<longrightarrow>
      (\<exists>u u'. findOne_email e (users w) = Some u
             \<and> findById (uid u) (users w') = Some u'
             \<and> refreshTokens u' = refreshTokens u @ [(refreshToken toks, now)]
             \<and> length (refreshTokens u') = Suc (length (refreshTokens u))))
   \<and> (createUser L C intf now rnd cd w2 = (Inr (obj2, toks2), w2') \<longrightarrow>
      (\<exists>u'. findById (fresh_id (intf (users w2))) (users w2') = Some u'
           \<and> email u' = lowercase_trim (cd_email cd)
           \<and> refreshTokens u' = [(refreshToken toks2, now)]))"
proof (intro conjI impI)
  assume "loginUser L C now rnd e pw w = (Inr (obj, toks), w')"
  then obtain u where f: "findOne_email e (users w) = Some u"
    and w': "w' = w\<lparr>users := map (\<lambda>v. if uid v = uid u
                   then u\<lparr>lastLogin := Some now, refreshTokens := refreshTokens u @ [(refreshToken toks, now)]\<rparr>
                   else v)
                 (map (\<lambda>v. if uid v = uid u then u\<lparr>lastLogin := Some now\<rparr> else v) (users w))\<rparr>"
    by (rule loginUser_success)
  from f have "u \<in> set (users w)"
    by (auto simp: findOne_email_def dest: find_Some_set)
  define us1 where "us1 = map (\<lambda>v. if uid v = uid u then u\<lparr>lastLogin := Some now\<rparr> else v) (users w)"
  define u2 where "u2 = u\<lparr>lastLogin := Some now,
                          refreshTokens := refreshTokens u @ [(refreshToken toks, now)]\<rparr>"
  from \<open>u \<in> set (users w)\<close> have "\<exists>v \<in> set us1. uid v = uid u"
    unfolding us1_def by (intro replaced_has_id) auto
  then have "find (\<lambda>v. uid v = uid u) (map (\<lambda>v. if uid v = uid u then u2 else v) us1) = Some u2"
    by (rule find_replaced) (simp add: u2_def)
  moreover have "users w' = map (\<lambda>v. if uid v = uid u then u2 else v) us1"
    unfolding w' us1_def u2_def by simp
  ultimately have "findById (uid u) (users w') = Some u2"
    by (simp only: findById_def)
  then have "findById (uid u) (users w')
               = Some (u\<lparr>lastLogin := Some now,
                         refreshTokens := refreshTokens u @ [(refreshToken toks, now)]\<rparr>)"
    by (simp only: u2_def)
  with f show "\<exists>u u'. findOne_email e (users w) = Some u
             \<and> findById (uid u) (users w') = Some u'
             \<and> refreshTokens u' = refreshTokens u @ [(refreshToken toks, now)]
             \<and> length (refreshTokens u') = Suc (length (refreshTokens u))"
    by simp
next
  assume "createUser L C intf now rnd cd w2 = (Inr (obj2, toks2), w2')"
  then obtain u1 where u1: "u1 = (attrs (new_User cd (fresh_id (intf (users w2)))))
                \<lparr>password := hashed_password L C rnd (cd_password cd)\<rparr>"
    and w': "w2' = \<lparr>users = map (\<lambda>v. if uid v = uid u1
                               then u1\<lparr>refreshTokens := [(refreshToken toks2, now)]\<rparr> else v)
                            (intf (users w2) @ [u1]),
               hashCalls = hashCalls w2 + 1\<rparr>"
    by (rule createUser_success)
  have i: "uid u1 = fresh_id (intf (users w2))" and m: "email u1 = lowercase_trim (cd_email cd)"
    by (simp_all add: u1 new_User_def)
  have "find (\<lambda>v. uid v = uid u1)
          (map (\<lambda>v. if uid v = uid u1 then u1\<lparr>refreshTokens := [(refreshToken toks2, now)]\<rparr> else v)
               (intf (users w2) @ [u1]))
          = Some (u1\<lparr>refreshTokens := [(refreshToken toks2, now)]\<rparr>)"
    by (rule find_replaced) simp_all
  then have "findById (fresh_id (intf (users w2))) (users w2')
          = Some (u1\<lparr>refreshTokens := [(refreshToken toks2, now)]\<rparr>)"
    unfolding w' findById_def i [symmetric] by simp
  with m show "\<exists>u'. findById (fresh_id (intf (users w2))) (users w2') = Some u'
           \<and> email u' = lowercase_trim (cd_email cd)
           \<and> refreshTokens u' = [(refreshToken toks2, now)]"
    by simp
qed


theorem refresh_token_appended_once_witness:
  "(\<exists>u u'. findOne_email ''a@x.com'' (users world1) = Some u
          \<and> findById (uid u) (users (snd run_login)) = Some u'
          \<and> refreshTokens u' = refreshTokens u @ [(refreshToken (snd (projr (fst run_login))), 1)]
          \<and> length (refreshTokens u') = Suc (length (refreshTokens u)))
   \<and> (\<exists>u'. findById (fresh_id (users world0)) (users (snd run_register)) = Some u'
          \<and> email u' = lowercase_trim (cd_email ann_data)
          \<and> refreshTokens u' = [(refreshToken (snd (projr (fst run_register))), 1)])
   \<and> map refreshTokens (users (snd run_login)) = [[(ann_refresh, 1)]]
   \<and> map refreshTokens (users (snd run_register)) = [[(ann_refresh, 1)]]
   \<and> map (\<lambda>u. length (refreshTokens u))
        (users (snd (loginUser stub_libs cfg 2 0 ''a@x.com'' ''pw123456'' (snd run_login)))) = [2]"
proof -
  have l: "loginUser stub_libs cfg 1 0 ''a@x.com'' ''pw123456'' world1
             = (Inr (fst (projr (fst run_login)), snd (projr (fst run_login))), snd run_login)"
    by code_simp
  have c: "createUser stub_libs cfg (\<lambda>us. us) 1 0 ann_data world0
             = (Inr (fst (projr (fst run_register)), snd (projr (fst run_register))), snd run_register)"
    by code_simp
  have e1: "map refreshTokens (users (snd run_login)) = [[(ann_refresh, 1)]]"
    by code_simp
  have e2: "map refreshTokens (users (snd run_register)) = [[(ann_refresh, 1)]]"
    by code_simp
  have e3: "map (\<lambda>u. length (refreshTokens u))
        (users (snd (loginUser stub_libs cfg 2 0 ''a@x.com'' ''pw123456'' (snd run_login)))) = [2]"
    by code_simp
  from refresh_token_appended_once
         [of stub_libs cfg 1 0 "''a@x.com''" "''pw123456''" world1
             "fst (projr (fst run_login))" "snd (projr (fst run_login))" "snd run_login"
             "\<lambda>us. us" ann_data world0
             "fst (projr (fst run_register))" "snd (projr (fst run_register))" "snd run_register"]
       l c e1 e2 e3
  show ?thesis by blast
qed

lemma save_new_user:
  "save L C rnd (new_User cd oid) w =
     (let u1 = (attrs (new_User cd oid))\<lparr>password := hashed_password L C rnd (cd_password cd)\<rparr>
      in case unique_violation u1 (users w) of
           Some f \<Rightarrow> (Inl (DuplicateKeyError f), w\<lparr>hashCalls := hashCalls w + 1\<rparr>)
         | None \<Rightarrow> (Inr \<lparr>attrs = u1, isNew = False, passwordModified = False, passwordSelected = True\<rparr>,
                    \<lparr>users = users w @ [u1], hashCalls = hashCalls w + 1\<rparr>))"
  by (simp add: save_def pre_save_def new_User_def hashed_password_def Let_def split: option.splits)

text \<open>
  C5.  After a successful registration, a registration with the same email (as the
  schema normalises it) fails with 409 "Email already registered", whatever its
  other fields are.  So does, in any state, a registration whose email is already
  stored, also when its username is taken too: the email is checked first.  When the email is
  stored only by the time of the insert (a concurrent registration), the store
  answers with the duplicate-key error and the error handler turns it into 409
  with the message "<key> already exists".  Either way the response has status 409.
\<close>

theorem duplicate_email_conflict:
  "(createUser L C intf0 now0 rnd0 cd0 w0 = (Inr (obj0, toks0), w)
      \<and> lowercase_trim (cd_email cd) = lowercase_trim (cd_email cd0) \<longrightarrow>
       createUser L C intf now rnd cd w = (Inl (AppError ''Email already registered'' 409), w)
     \<and> status (fst (register L C intf now rnd cd w)) = 409)
   \<and> ((\<exists>u \<in> set (users w). email u = lowercase_trim (cd_email cd)) \<longrightarrow>
       createUser L C intf now rnd cd w = (Inl (AppError ''Email already registered'' 409), w)
     \<and> status (fst (register L C intf now rnd cd w)) = 409)
   \<and> (findOne_email (cd_email cd) (users w) = None \<and> precheck_username cd (users w) = None
      \<and> (\<exists>u \<in> set (intf (users w)). email u = lowercase_trim (cd_email cd)) \<longrightarrow>
       (\<exists>k. fst (createUser L C intf now rnd cd w) = Inl (DuplicateKeyError k)
           \<and> fst (register L C intf now rnd cd w) = error_reply 409 (k @ '' already exists'') None))
   \<and> ((\<exists>u \<in> set (intf (users w)). email u = lowercase_trim (cd_email cd)) \<longrightarrow>
       status (fst (register L C intf now rnd cd w)) = 409)"
proof -
  define n where "n = lowercase_trim (cd_email cd)"
  have hit: "createUser L C intf now rnd cd w = (Inl (AppError ''Email already registered'' 409), w)"
    if "\<exists>u \<in> set (users w). email u = n"
  proof -
    from that have "find (\<lambda>u. email u = n) (users w) \<noteq> None"
      by (auto simp: find_None_iff)
    then show ?thesis
      by (auto simp: createUser_def findOne_email_def n_def)
  qed
  have race: "fst (createUser L C intf now rnd cd w) = Inl (DuplicateKeyError ''email'')"
    if "findOne_email (cd_email cd) (users w) = None" "precheck_username cd (users w) = None"
       "\<exists>u \<in> set (intf (users w)). email u = n"
  proof -
    have "email ((attrs (new_User cd (fresh_id (intf (users w)))))
                   \<lparr>password := hashed_password L C rnd (cd_password cd)\<rparr>) = n"
      by (simp add: new_User_def n_def)
    with that(3) have "unique_violation ((attrs (new_User cd (fresh_id (intf (users w)))))
                   \<lparr>password := hashed_password L C rnd (cd_password cd)\<rparr>) (intf (users w)) = Some ''email''"
      by (simp add: unique_violation_def)
    with that(1,2) show ?thesis
      by (simp add: createUser_def Let_def save_new_user)
  qed
  have st: "status (error_reply 409 m None) = 409" for m
    by (simp add: error_reply_def)
  have any: "status (fst (register L C intf now rnd cd w)) = 409"
    if "\<exists>u \<in> set (intf (users w)). email u = n"
  proof (cases "findOne_email (cd_email cd) (users w)")
    case (Some a)
    then show ?thesis by (simp add: register_def createUser_def st)
  next
    case None
    show ?thesis
    proof (cases "precheck_username cd (users w)")
      case (Some a)
      with None show ?thesis by (simp add: register_def createUser_def st)
    next
      case pn: None
      from race [OF None pn that] show ?thesis
        by (cases "createUser L C intf now rnd cd w") (simp add: register_def st)
    qed
  qed
  have stored: "\<exists>u \<in> set (users w). email u = n"
    if c: "createUser L C intf0 now0 rnd0 cd0 w0 = (Inr (obj0, toks0), w)"
       and e: "lowercase_trim (cd_email cd) = lowercase_trim (cd_email cd0)"
  proof -
    from c obtain u1 where u1: "u1 = (attrs (new_User cd0 (fresh_id (intf0 (users w0)))))
                \<lparr>password := hashed_password L C rnd0 (cd_password cd0)\<rparr>"
      and w: "w = \<lparr>users = map (\<lambda>v. if uid v = uid u1
                               then u1\<lparr>refreshTokens := [(refreshToken toks0, now0)]\<rparr> else v)
                            (intf0 (users w0) @ [u1]),
               hashCalls = hashCalls w0 + 1\<rparr>"
      by (rule createUser_success)
    have "email u1 = n"
      by (simp add: u1 new_User_def n_def e)
    then have "email (u1\<lparr>refreshTokens := [(refreshToken toks0, now0)]\<rparr>) = n
               \<and> u1\<lparr>refreshTokens := [(refreshToken toks0, now0)]\<rparr> \<in> set (users w)"
      by (simp add: w)
    then show ?thesis by blast
  qed
  show ?thesis
  proof (intro conjI impI)
    assume a: "createUser L C intf0 now0 rnd0 cd0 w0 = (Inr (obj0, toks0), w)
      \<and> lowercase_trim (cd_email cd) = lowercase_trim (cd_email cd0)"
    then have "\<exists>u \<in> set (users w). email u = n"
      using stored by blast
    then show h: "createUser L C intf now rnd cd w = (Inl (AppError ''Email already registered'' 409), w)"
      by (rule hit)
    then show "status (fst (register L C intf now rnd cd w)) = 409"
      by (simp add: register_def st)
  next
    assume a: "\<exists>u \<in> set (users w). email u = lowercase_trim (cd_email cd)"
    then show "createUser L C intf now rnd cd w = (Inl (AppError ''Email already registered'' 409), w)"
      using hit by (simp add: n_def)
    with a show "status (fst (register L C intf now rnd cd w)) = 409"
      by (simp add: register_def st)
  next
    assume a: "findOne_email (cd_email cd) (users w) = None \<and> precheck_username cd (users w) = None
      \<and> (\<exists>u \<in> set (intf (users w)). email u = lowercase_trim (cd_email cd))"
    then have r: "fst (createUser L C intf now rnd cd w) = Inl (DuplicateKeyError ''email'')"
      using race by (simp add: n_def)
    then have "fst (register L C intf now rnd cd w) = error_reply 409 (''email'' @ '' already exists'') None"
      by (cases "createUser L C intf now rnd cd w") (simp add: register_def)
    with r show "\<exists>k. fst (createUser L C intf now rnd cd w) = Inl (DuplicateKeyError k)
           \<and> fst (register L C intf now rnd cd w) = error_reply 409 (k @ '' already exists'') None"
      by blast
  next
    assume "\<exists>u \<in> set (intf (users w)). email u = lowercase_trim (cd_email cd)"
    then show "status (fst (register L C intf now rnd cd w)) = 409"
      using any by (simp add: n_def)
  qed
qed


theorem duplicate_email_conflict_witness:
  "createUser stub_libs cfg (\<lambda>us. us) 1 0 ann_data world0
     = (Inr (fst (projr (fst run_register)), snd (projr (fst run_register))), snd run_register)
   \<and> lowercase_trim (cd_email other_data) = lowercase_trim (cd_email ann_data)
   \<and> createUser stub_libs cfg (\<lambda>us. us) 2 0 other_data (snd run_register)
       = (Inl (AppError ''Email already registered'' 409), snd run_register)
   \<and> (\<exists>u \<in> set (users world_named). email u = lowercase_trim (cd_email other_data))
   \<and> findOne_username ''Ann'' (users world_named) = Some (ann\<lparr>username := Some ''ann''\<rparr>)
   \<and> createUser stub_libs cfg (\<lambda>us. us) 2 0 other_data world_named
       = (Inl (AppError ''Email already registered'' 409), world_named)
   \<and> status (fst (register stub_libs cfg (\<lambda>us. us) 2 0 other_data world_named)) = 409
   \<and> findOne_email (cd_email ann_data) (users world0) = None
   \<and> precheck_username ann_data (users world0) = None
   \<and> (\<exists>u \<in> set (users world0 @ [ann]). email u = lowercase_trim (cd_email ann_data))
   \<and> (\<exists>k. fst (createUser stub_libs cfg (\<lambda>us. us @ [ann]) 1 0 ann_data world0)
             = Inl (DuplicateKeyError k)
           \<and> fst (register stub_libs cfg (\<lambda>us. us @ [ann]) 1 0 ann_data world0)
             = error_reply 409 (k @ '' already exists'') None)
   \<and> fst (createUser stub_libs cfg (\<lambda>us. us @ [ann]) 1 0 ann_data world0)
       = Inl (DuplicateKeyError ''email'')
   \<and> status (fst (register stub_libs cfg (\<lambda>us. us @ [ann]) 1 0 ann_data world0)) = 409"
proof -
  have a: "\<exists>u \<in> set (users world_named). email u = lowercase_trim (cd_email other_data)"
    by code_simp
  have n: "findOne_username ''Ann'' (users world_named) = Some (ann\<lparr>username := Some ''ann''\<rparr>)"
    by code_simp
  have b: "findOne_email (cd_email ann_data) (users world0) = None"
    by code_simp
  have c: "precheck_username ann_data (users world0) = None"
    by code_simp
  have d: "\<exists>u \<in> set (users world0 @ [ann]). email u = lowercase_trim (cd_email ann_data)"
    by code_simp
  have r: "createUser stub_libs cfg (\<lambda>us. us) 1 0 ann_data world0
     = (Inr (fst (projr (fst run_register)), snd (projr (fst run_register))), snd run_register)"
    by code_simp
  have e: "lowercase_trim (cd_email other_data) = lowercase_trim (cd_email ann_data)"
    by code_simp
  from duplicate_email_conflict
         [of stub_libs cfg "\<lambda>us. us" 1 0 ann_data world0
             "fst (projr (fst run_register))" "snd (projr (fst run_register))" "snd run_register"
             other_data "\<lambda>us. us" 2 0]
       r e
  have 1: "createUser stub_libs cfg (\<lambda>us. us) 2 0 other_data (snd run_register)
       = (Inl (AppError ''Email already registered'' 409), snd run_register)"
    by blast
  from duplicate_email_conflict
         [of stub_libs cfg "\<lambda>us. us" 1 0 ann_data world0 _ _ world_named other_data "\<lambda>us. us" 2 0]
       a
  have 2: "createUser stub_libs cfg (\<lambda>us. us) 2 0 other_data world_named
       = (Inl (AppError ''Email already registered'' 409), world_named)
     \<and> status (fst (register stub_libs cfg (\<lambda>us. us) 2 0 other_data world_named)) = 409"
    by blast
  from duplicate_email_conflict
         [of stub_libs cfg "\<lambda>us. us" 1 0 ann_data world0 _ _ world0 ann_data "\<lambda>us. us @ [ann]" 1 0]
       b c d
  have 3: "(\<exists>k. fst (createUser stub_libs cfg (\<lambda>us. us @ [ann]) 1 0 ann_data world0)
              = Inl (DuplicateKeyError k)
            \<and> fst (register stub_libs cfg (\<lambda>us. us @ [ann]) 1 0 ann_data world0)
              = error_reply 409 (k @ '' already exists'') None)
     \<and> status (fst (register stub_libs cfg (\<lambda>us. us @ [ann]) 1 0 ann_data world0)) = 409"
    by blast
  have 4: "fst (createUser stub_libs cfg (\<lambda>us. us @ [ann]) 1 0 ann_data world0)
             = Inl (DuplicateKeyError ''email'')"
    by code_simp
  from r e a n b c d 1 2 3 4 show ?thesis by blast
qed

lemma distinct_uid_unique:
  "distinct (map uid us) \<Longrightarrow> u \<in> set us \<Longrightarrow> v \<in> set us \<Longrightarrow> uid v = uid u \<Longrightarrow> v = u"
  by (meson distinct_map inj_onD)

lemma map_password_replaced:
  assumes "distinct (map uid us)" "u \<in> set us" "password x = password u"
  shows "map password (map (\<lambda>v. if uid v = uid u then x else v) us) = map password us"
proof -
  have "password (if uid v = uid u then x else v) = password v" if "v \<in> set us" for v
    using distinct_uid_unique [OF assms(1,2) that] assms(3) by auto
  then show ?thesis by simp
qed

lemma loginUser_keeps_hashes:
  assumes "loginUser L C now rnd e pw w = (r, w')" "distinct (map uid (users w))"
  shows "hashCalls w' = hashCalls w \<and> map password (users w') = map password (users w)"
proof (cases "findOne_email e (users w)")
  case None
  with assms show ?thesis by (auto simp: loginUser_def)
next
  case (Some u)
  then have m: "u \<in> set (users w)"
    by (auto simp: findOne_email_def dest: find_Some_set)
  define us1 where "us1 = map (\<lambda>v. if uid v = uid u then u\<lparr>lastLogin := Some now\<rparr> else v) (users w)"
  have p1: "map password us1 = map password (users w)"
    unfolding us1_def using assms(2) m by (rule map_password_replaced) simp
  have "map uid us1 = map uid (users w)"
    unfolding us1_def by (induction "users w") auto
  with assms(2) have d1: "distinct (map uid us1)" by simp
  have m1: "u\<lparr>lastLogin := Some now\<rparr> \<in> set us1"
    unfolding us1_def using m by (auto simp: image_iff intro!: bexI [of _ u])
  have p2: "map password (map (\<lambda>v. if uid v = uid (u\<lparr>lastLogin := Some now\<rparr>) then x else v) us1)
              = map password us1" if "password x = password u" for x
    using d1 m1 by (rule map_password_replaced) (simp add: that)
  have d: "\<not> isNew (hydrate True u\<lparr>attrs := u\<lparr>lastLogin := Some now\<rparr>\<rparr>)"
          "\<not> passwordModified (hydrate True u\<lparr>attrs := u\<lparr>lastLogin := Some now\<rparr>\<rparr>)"
    by (simp_all add: hydrate_def)
  from assms(1) Some d p1 p2 show ?thesis
    by (auto simp: loginUser_def comparePassword_def Let_def save_unmodified generateTokens_saved
                   hydrate_def us1_def split: if_splits)
qed

lemma changePassword_changed:
  assumes "changePassword L C rnd i cur new w = (Inr msg, w')" "findById i (users w) = Some u"
          "new \<noteq> password u"
  shows "hashCalls w' = hashCalls w + 1
         \<and> map_option password (findById i (users w')) = Some (hashed_password L C rnd new)"
proof -
  from assms(2) have m: "u \<in> set (users w)" and i: "uid u = i"
    by (auto simp: findById_def dest: find_Some_set)
  define x where "x = u\<lparr>password := hashed_password L C rnd new\<rparr>"
  have sv: "save L C rnd (set_password (hydrate True u) new) w
          = (Inr \<lparr>attrs = x, isNew = False, passwordModified = False, passwordSelected = True\<rparr>,
             w\<lparr>hashCalls := hashCalls w + 1,
               users := map (\<lambda>v. if uid v = i then x else v) (users w)\<rparr>)"
    using assms(3) i
    by (simp add: save_def pre_save_def set_password_def hydrate_def hashed_password_def x_def)
  have "find (\<lambda>v. uid v = i) (map (\<lambda>v. if uid v = i then x else v) (users w)) = Some x"
    using m i by (intro find_replaced) (auto simp: x_def)
  with assms(1,2) sv show ?thesis
    by (auto simp: changePassword_def Let_def findById_def x_def split: if_splits)
qed

text \<open>
  Where the hook does hash once: a successful \<^verbatim>\<open>createUser\<close> computes exactly one
  hash and stores the hash of the supplied plaintext, and so does a successful
  \<^verbatim>\<open>changePassword\<close> whose new password is not the stored password string.  A login
  computes no hash and leaves every stored password as it was (the ids of the
  collection being distinct), and the hook does nothing to a document whose
  password is not marked modified.
\<close>

lemma hook_hashes_marked_password_once:
  "(createUser L C intf now rnd cd w = (Inr (obj, toks), w') \<longrightarrow>
      hashCalls w' = hashCalls w + 1
      \<and> map_option password (findById (fresh_id (intf (users w))) (users w'))
          = Some (hashed_password L C rnd (cd_password cd)))
   \<and> (changePassword L C rnd i cur new w1 = (Inr msg, w1') \<and> findById i (users w1) = Some u
        \<and> new \<noteq> password u \<longrightarrow>
      hashCalls w1' = hashCalls w1 + 1
      \<and> map_option password (findById i (users w1')) = Some (hashed_password L C rnd new))
   \<and> (loginUser L C now rnd e pw w2 = (r, w2') \<and> distinct (map uid (users w2)) \<longrightarrow>
      hashCalls w2' = hashCalls w2 \<and> map password (users w2') = map password (users w2))
   \<and> (\<not> passwordModified d \<longrightarrow> pre_save L C rnd d = (d, 0))"
proof (intro conjI impI)
  assume "createUser L C intf now rnd cd w = (Inr (obj, toks), w')"
  then obtain u1 where u1: "u1 = (attrs (new_User cd (fresh_id (intf (users w)))))
                \<lparr>password := hashed_password L C rnd (cd_password cd)\<rparr>"
    and w': "w' = \<lparr>users = map (\<lambda>v. if uid v = uid u1
                               then u1\<lparr>refreshTokens := [(refreshToken toks, now)]\<rparr> else v)
                            (intf (users w) @ [u1]),
               hashCalls = hashCalls w + 1\<rparr>"
    by (rule createUser_success)
  show "hashCalls w' = hashCalls w + 1"
    by (simp add: w')
  have i: "uid u1 = fresh_id (intf (users w))"
    by (simp add: u1 new_User_def)
  have "find (\<lambda>v. uid v = uid u1)
          (map (\<lambda>v. if uid v = uid u1 then u1\<lparr>refreshTokens := [(refreshToken toks, now)]\<rparr> else v)
               (intf (users w) @ [u1]))
          = Some (u1\<lparr>refreshTokens := [(refreshToken toks, now)]\<rparr>)"
    by (rule find_replaced) simp_all
  then show "map_option password (findById (fresh_id (intf (users w))) (users w'))
          = Some (hashed_password L C rnd (cd_password cd))"
    unfolding w' findById_def i [symmetric] by (simp add: u1)
next
  assume a: "changePassword L C rnd i cur new w1 = (Inr msg, w1') \<and> findById i (users w1) = Some u
        \<and> new \<noteq> password u"
  then have *: "hashCalls w1' = hashCalls w1 + 1
         \<and> map_option password (findById i (users w1')) = Some (hashed_password L C rnd new)"
    by (intro changePassword_changed [of L C rnd i cur new w1 msg w1' u]) simp_all
  from * show "hashCalls w1' = hashCalls w1 + 1" ..
  from * show "map_option password (findById i (users w1')) = Some (hashed_password L C rnd new)" ..
next
  assume a: "loginUser L C now rnd e pw w2 = (r, w2') \<and> distinct (map uid (users w2))"
  then have *: "hashCalls w2' = hashCalls w2 \<and> map password (users w2') = map password (users w2)"
    by (intro loginUser_keeps_hashes [of L C now rnd e pw w2 r w2']) simp_all
  from * show "hashCalls w2' = hashCalls w2" ..
  from * show "map password (users w2') = map password (users w2)" ..
next
  assume "\<not> passwordModified d"
  then show "pre_save L C rnd d = (d, 0)"
    by (simp add: pre_save_def)
qed

lemma hook_hashes_marked_password_once_example:
  "createUser stub_libs cfg (\<lambda>us. us) 1 0 ann_data world0
     = (Inr (fst (projr (fst run_register)), snd (projr (fst run_register))), snd run_register)
   \<and> hashCalls (snd run_register) = hashCalls world0 + 1
   \<and> map_option password (findById (fresh_id (users world0)) (users (snd run_register)))
       = Some (hashed_password stub_libs cfg 0 (cd_password ann_data))
   \<and> changePassword stub_libs cfg 0 1 ''pw123456'' ''newpw12345678'' world1
       = (Inr ''Password changed successfully'',
          snd (changePassword stub_libs cfg 0 1 ''pw123456'' ''newpw12345678'' world1))
   \<and> findById 1 (users world1) = Some ann
   \<and> ''newpw12345678'' \<noteq> password ann
   \<and> hashCalls (snd (changePassword stub_libs cfg 0 1 ''pw123456'' ''newpw12345678'' world1))
       = hashCalls world1 + 1
   \<and> map_option password
        (findById 1 (users (snd (changePassword stub_libs cfg 0 1 ''pw123456'' ''newpw12345678'' world1))))
       = Some (hashed_password stub_libs cfg 0 ''newpw12345678'')
   \<and> loginUser stub_libs cfg 1 0 ''a@x.com'' ''pw123456'' world1 = (fst run_login, snd run_login)
   \<and> distinct (map uid (users world1))
   \<and> hashCalls (snd run_login) = hashCalls world1
   \<and> map password (users (snd run_login)) = map password (users world1)
   \<and> \<not> passwordModified (hydrate True ann)
   \<and> pre_save stub_libs cfg 0 (hydrate True ann) = (hydrate True ann, 0)"
proof -
  have c: "createUser stub_libs cfg (\<lambda>us. us) 1 0 ann_data world0
     = (Inr (fst (projr (fst run_register)), snd (projr (fst run_register))), snd run_register)"
    by code_simp
  have p: "changePassword stub_libs cfg 0 1 ''pw123456'' ''newpw12345678'' world1
       = (Inr ''Password changed successfully'',
          snd (changePassword stub_libs cfg 0 1 ''pw123456'' ''newpw12345678'' world1))"
    by code_simp
  have f: "findById 1 (users world1) = Some ann"
    by code_simp
  have n: "''newpw12345678'' \<noteq> password ann"
    by code_simp
  have l: "loginUser stub_libs cfg 1 0 ''a@x.com'' ''pw123456'' world1 = (fst run_login, snd run_login)"
    by (simp add: run_login_def)
  have d: "distinct (map uid (users world1))"
    by code_simp
  have m: "\<not> passwordModified (hydrate True ann)"
    by code_simp
  from hook_hashes_marked_password_once
         [of stub_libs cfg "\<lambda>us. us" 1 0 ann_data world0
             "fst (projr (fst run_register))" "snd (projr (fst run_register))" "snd run_register"
             1 "''pw123456''" "''newpw12345678''" world1 "''Password changed successfully''"
             "snd (changePassword stub_libs cfg 0 1 ''pw123456'' ''newpw12345678'' world1)" ann
             "''a@x.com''" "''pw123456''" world1 "fst run_login" "snd run_login" "hydrate True ann"]
       c p f n l d m
  show ?thesis by blast
qed

text \<open>
  C9, at the input where the code departs from it: a password change whose new
  password is the stored password string.  The assignment does not mark the path
  modified, the hook returns at its guard, and \<^verbatim>\<open>changePassword\<close> reports success
  with no hash computed and nothing written, where every password change is to
  compute exactly one hash.
\<close>

theorem changePassword_to_stored_string_runs_no_hash:
  "changePassword stub_libs cfg 0 1 ''pw123456'' ''$100pw123456'' world1
     = (Inr ''Password changed successfully'', world1)
   \<and> findById 1 (users world1) = Some ann
   \<and> password ann = ''$100pw123456''
   \<and> hashCalls (snd (changePassword stub_libs cfg 0 1 ''pw123456'' ''$100pw123456'' world1))
       = hashCalls world1"
  by code_simp

subsection \<open>What Register and Login return\<close>

lemma has_key_delete_key:
  "has_key k (delete_key k' obj) = (k \<noteq> k' \<and> has_key k obj)"
  by (induction obj) (auto simp: has_key_def delete_key_def)

lemma toObject_password:
  "passwordSelected d \<Longrightarrow> map_of (toObject d) ''password'' = Some (JStr (password (attrs d)))"
  by (simp add: toObject_def Let_def)

lemma toObject_refreshTokens: "has_key ''refreshTokens'' (toObject d)"
  by (simp add: toObject_def Let_def has_key_def split: option.splits)

text \<open>
  C1, as the code has it for Login.  Every successful \<^verbatim>\<open>loginUser\<close> returns a user
  object that holds the stored password hash under \<^verbatim>\<open>password\<close> and the list
  \<^verbatim>\<open>refreshTokens\<close>: the document is loaded with \<^verbatim>\<open>.select('+password')\<close> and
  returned through \<^verbatim>\<open>toObject()\<close> with nothing deleted, unlike in
  \<^verbatim>\<open>createUser\<close>.
\<close>

theorem loginUser_returns_password_hash:
  "loginUser L C now rnd e pw w = (Inr (obj, toks), w') \<longrightarrow>
     (\<exists>u. findOne_email e (users w) = Some u
         \<and> map_of obj ''password'' = Some (JStr (password u)))
     \<and> has_key ''refreshTokens'' obj"
proof
  assume "loginUser L C now rnd e pw w = (Inr (obj, toks), w')"
  then obtain u where f: "findOne_email e (users w) = Some u"
    and o: "obj = toObject (hydrate True (u\<lparr>lastLogin := Some now,
                    refreshTokens := refreshTokens u @ [(refreshToken toks, now)]\<rparr>))"
    by (rule loginUser_success)
  have "map_of obj ''password'' = Some (JStr (password u))"
    unfolding o by (subst toObject_password) (simp_all add: hydrate_def)
  with f show "(\<exists>u. findOne_email e (users w) = Some u
         \<and> map_of obj ''password'' = Some (JStr (password u)))
     \<and> has_key ''refreshTokens'' obj"
    unfolding o by (simp add: toObject_refreshTokens)
qed

theorem loginUser_returns_password_hash_witness:
  "loginUser stub_libs cfg 1 0 ''a@x.com'' ''pw123456'' world1
     = (Inr (fst (projr (fst run_login)), snd (projr (fst run_login))), snd run_login)
   \<and> findOne_email ''a@x.com'' (users world1) = Some ann
   \<and> map_of (fst (projr (fst run_login))) ''password'' = Some (JStr ''$100pw123456'')
   \<and> has_key ''refreshTokens'' (fst (projr (fst run_login)))
   \<and> fst (login stub_libs cfg 1 0 ''a@x.com'' ''pw123456'' world1)
       = ok_reply 200 [(''user'', JObj (fst (projr (fst run_login)))),
                       (''tokens'', tokens_json (snd (projr (fst run_login))))]
   \<and> \<not> has_key ''password'' (fst (projr (fst run_register)))
   \<and> \<not> has_key ''refreshTokens'' (fst (projr (fst run_register)))"
proof -
  have l: "loginUser stub_libs cfg 1 0 ''a@x.com'' ''pw123456'' world1
     = (Inr (fst (projr (fst run_login)), snd (projr (fst run_login))), snd run_login)"
    by code_simp
  have f: "findOne_email ''a@x.com'' (users world1) = Some ann"
    by code_simp
  have p: "password ann = ''$100pw123456''"
    by code_simp
  have r: "fst (login stub_libs cfg 1 0 ''a@x.com'' ''pw123456'' world1)
       = ok_reply 200 [(''user'', JObj (fst (projr (fst run_login)))),
                       (''tokens'', tokens_json (snd (projr (fst run_login))))]"
    by code_simp
  have c: "\<not> has_key ''password'' (fst (projr (fst run_register)))
           \<and> \<not> has_key ''refreshTokens'' (fst (projr (fst run_register)))"
    by code_simp
  from loginUser_returns_password_hash
         [of stub_libs cfg 1 0 "''a@x.com''" "''pw123456''" world1
             "fst (projr (fst run_login))" "snd (projr (fst run_login))" "snd run_login"]
       l f p r c
  show ?thesis by auto
qed

text \<open>The Register half of C1 holds: \<^verbatim>\<open>createUser\<close> deletes both keys.\<close>

lemma createUser_returns_no_secret:
  "createUser L C intf now rnd cd w = (Inr (obj, toks), w') \<Longrightarrow>
     \<not> has_key ''password'' obj \<and> \<not> has_key ''refreshTokens'' obj"
  by (erule createUser_success) (simp add: has_key_delete_key)

subsection \<open>Changing the password to the stored string\<close>

text \<open>
  When the new password is the string the record stores, the assignment does not
  mark the path modified: whatever the hash library, \<^verbatim>\<open>changePassword\<close> reports
  success, computes no hash and leaves the record as it was.
\<close>

lemma changePassword_noop_on_stored_string:
  assumes "findById i (users w) = Some u" "bcrypt_compare L cur (password u)"
  shows "fst (changePassword L C rnd i cur (password u) w) = Inr ''Password changed successfully''
         \<and> hashCalls (snd (changePassword L C rnd i cur (password u) w)) = hashCalls w
         \<and> findById i (users (snd (changePassword L C rnd i cur (password u) w))) = Some u"
proof -
  from assms(1) have m: "\<exists>v \<in> set (users w). uid v = i" and i: "uid u = i"
    by (auto simp: findById_def dest: find_Some_set)
  have "find (\<lambda>v. uid v = i) (map (\<lambda>v. if uid v = i then u else v) (users w)) = Some u"
    using m i by (rule find_replaced)
  with assms i show ?thesis
    by (simp add: changePassword_def comparePassword_def set_password_def hydrate_def
                  save_def pre_save_def findById_def cong: if_cong)
qed

text \<open>
  For any other new password, the record afterwards stores one hash of it, and
  \<^verbatim>\<open>comparePassword\<close> is \<^verbatim>\<open>bcrypt.compare\<close> against that hash.
\<close>

lemma comparePassword_after_changePassword:
  assumes "changePassword L C rnd i cur new w = (Inr msg, w')" "findById i (users w) = Some u"
          "new \<noteq> password u"
  shows "\<exists>u'. findById i (users w') = Some u'
           \<and> (\<forall>c. comparePassword L (hydrate True u') c
                    = bcrypt_compare L c (hashed_password L C rnd new))"
  using changePassword_changed [OF assms]
  by (auto simp: comparePassword_def hydrate_def)

text \<open>
  C2, at the input where the code departs from it.  A record is created from the
  plaintext "pw123456"; the password is then changed to the string the record
  stores.  \<^verbatim>\<open>changePassword\<close> reports success, but \<^verbatim>\<open>comparePassword\<close> rejects the
  password just supplied and still accepts the old one.
\<close>

theorem changePassword_to_stored_string_keeps_old_password:
  "cd_password ann_data = ''pw123456''
   \<and> map password (users (snd run_register)) = [''$100pw123456'']
   \<and> fst (changePassword stub_libs cfg 0 1 ''pw123456'' ''$100pw123456'' (snd run_register))
       = Inr ''Password changed successfully''
   \<and> map (\<lambda>u. comparePassword stub_libs (hydrate True u) ''$100pw123456'')
        (users (snd (changePassword stub_libs cfg 0 1 ''pw123456'' ''$100pw123456'' (snd run_register))))
       = [False]
   \<and> map (\<lambda>u. comparePassword stub_libs (hydrate True u) ''pw123456'')
        (users (snd (changePassword stub_libs cfg 0 1 ''pw123456'' ''$100pw123456'' (snd run_register))))
       = [True]"
  by code_simp

subsection \<open>Profile update through the public route\<close>

text \<open>What the validation middleware hands on is the body it was given.\<close>

lemma validate_passes_body_on: "validate S reqBody = Inr b \<Longrightarrow> b = reqBody"
  by (auto simp: validate_def split: prod.splits if_splits)

text \<open>
  Had the middleware handed on the value Joi stripped, no request could write the
  email, the password, the role or the \<^verbatim>\<open>isActive\<close> flag: the keys of the schema do
  not reach these paths.
\<close>

lemma set_path_listed_key:
  assumes "fst kv \<in> set (joi_keys (updateProfile_schema rules))"
  shows "case set_path kv of
           Inl err \<Rightarrow> True
         | Inr f \<Rightarrow> \<forall>u. email (f u) = email u \<and> password (f u) = password u
                        \<and> role (f u) = role u \<and> isActive (f u) = isActive u"
  using assms
  by (auto simp: set_path_def updateProfile_schema_def Let_def split: jval.splits sum.splits)

lemma set_paths_listed_keys:
  assumes "\<forall>kv \<in> set b. fst kv \<in> set (joi_keys (updateProfile_schema rules))"
          "set_paths b = Inr f"
  shows "email (f u) = email u \<and> password (f u) = password u
         \<and> role (f u) = role u \<and> isActive (f u) = isActive u"
  using assms
proof (induction b arbitrary: f u)
  case Nil
  then show ?case by auto
next
  case (Cons kv b)
  from Cons.prems(2) obtain g h where g: "set_path kv = Inr g" and h: "set_paths b = Inr h"
    and f: "f = (\<lambda>u. h (g u))"
    by (auto split: sum.splits)
  from Cons.prems(1) have "fst kv \<in> set (joi_keys (updateProfile_schema rules))"
    by simp
  from set_path_listed_key [OF this] g
  have "email (g u) = email u \<and> password (g u) = password u
         \<and> role (g u) = role u \<and> isActive (g u) = isActive u"
    by simp
  moreover from Cons.IH [OF _ h, of "g u"] Cons.prems(1)
  have "email (h (g u)) = email (g u) \<and> password (h (g u)) = password (g u)
         \<and> role (h (g u)) = role (g u) \<and> isActive (h (g u)) = isActive (g u)"
    by simp
  ultimately show ?case by (simp add: f)
qed

lemma stripped_body_keeps_credentials:
  assumes "set_paths (snd (joi_validate (updateProfile_schema rules) b)) = Inr f"
  shows "email (f u) = email u \<and> password (f u) = password u
         \<and> role (f u) = role u \<and> isActive (f u) = isActive u"
  using assms by (intro set_paths_listed_keys [of _ rules f u]) (auto simp: joi_validate_def Let_def)

text \<open>
  C10, at an input where the code departs from it.  An authenticated request to
  \<^verbatim>\<open>PUT /api/users/profile\<close> whose body holds \<^verbatim>\<open>role\<close>, \<^verbatim>\<open>email\<close>,
  \<^verbatim>\<open>password\<close> and \<^verbatim>\<open>isActive\<close> is answered with 200 and all four are written
  to the stored record (the password as given, unhashed), whatever the rules of the
  schema's own keys are.  The value Joi stripped is empty, but the middleware hands
  the unstripped body on.
\<close>

theorem put_profile_writes_unlisted_fields:
  "status (fst (put_profile stub_libs cfg rules 2 (Some (''Bearer '' @ ann_access)) attack_body world1))
     = 200
   \<and> users (snd (put_profile stub_libs cfg rules 2 (Some (''Bearer '' @ ann_access)) attack_body world1))
       = [ann\<lparr>role := ''admin'', email := ''m@x.com'', password := ''plainpass'', isActive := False\<rparr>]
   \<and> snd (joi_validate (updateProfile_schema rules) attack_body) = []
   \<and> validate (updateProfile_schema rules) attack_body = Inr attack_body"
  by code_simp

end
